theory Spec2Isabelle
  imports Main "HOL-Library.Code_Target_Nat"
begin

section \<open>JavaScript values used by the Anki settings controllers\<close>

text \<open>
  The controllers of \<^verbatim>\<open>ext/js/pages/settings/anki-controller.js\<close> are embedded as
  functions on explicit state records. JavaScript strings are modelled as \<open>string\<close>
  (code units below 256), JavaScript integers as \<open>int\<close> or \<open>nat\<close>, and a call that may
  throw returns an \<open>outcome\<close>: the state it reached, and the error when one was thrown
  (an assignment made before a \<^verbatim>\<open>throw\<close> stays made).
\<close>

datatype error =
  Error string              \<comment> \<open>\<^verbatim>\<open>new Error(message)\<close>\<close>
  | ElementNotFound string  \<comment> \<open>thrown by \<^verbatim>\<open>querySelectorNotNull\<close> for a selector\<close>
  | TypeError string        \<comment> \<open>raised by the language itself\<close>

datatype 'a outcome = Returned 'a | Threw error 'a

fun stateOf :: "'a outcome \<Rightarrow> 'a" where
  "stateOf (Returned s) = s"
| "stateOf (Threw e s) = s"

fun thrownBy :: "'a outcome \<Rightarrow> error option" where
  "thrownBy (Returned s) = None"
| "thrownBy (Threw e s) = Some e"

subsection \<open>Numbers printed in decimal\<close>

definition digitChar :: "nat \<Rightarrow> char" where
  "digitChar d = ''0123456789'' ! d"

definition digitValue :: "char \<Rightarrow> nat" where
  "digitValue c = of_char c - 48"

text \<open>\<^verbatim>\<open>`${n}`\<close> for a non-negative integer \<open>n\<close>.\<close>

fun decimal :: "nat \<Rightarrow> string" where
  "decimal n = (if n < 10 then [digitChar n] else decimal (n div 10) @ [digitChar (n mod 10)])"

declare decimal.simps [simp del]

definition parseDecimal :: "string \<Rightarrow> nat" where
  "parseDecimal s = foldl (\<lambda>a c. 10 * a + digitValue c) 0 s"

subsection \<open>Objects with ordered own properties\<close>

text \<open>
  A JavaScript object is the list of its own properties in the order in which
  \<^verbatim>\<open>Object.entries\<close>, \<^verbatim>\<open>for-in\<close> and the spread \<^verbatim>\<open>{...obj}\<close> visit them: the keys that
  are array indices (canonical decimal numerals below \<open>2^32 - 1\<close>) first, in ascending
  numeric order, then every other string key in the order of its creation. A property
  value is \<open>None\<close> for \<^verbatim>\<open>undefined\<close>.
\<close>

type_synonym 'v jsobject = "(string \<times> 'v option) list"

definition arrayIndex :: "string \<Rightarrow> nat option" where
  "arrayIndex k =
     (let n = parseDecimal k in if k = decimal n \<and> n < 4294967295 then Some n else None)"

definition objectEntries :: "'v jsobject \<Rightarrow> (string \<times> 'v option) list" where
  "objectEntries obj = obj"

definition objectKeys :: "'v jsobject \<Rightarrow> string list" where
  "objectKeys obj = map fst obj"

definition hasOwnProperty :: "'v jsobject \<Rightarrow> string \<Rightarrow> bool" where
  "hasOwnProperty obj k = (k \<in> set (objectKeys obj))"

text \<open>\<^verbatim>\<open>obj[k]\<close>: \<^verbatim>\<open>undefined\<close> for a key the object does not have.\<close>

definition getProperty :: "'v jsobject \<Rightarrow> string \<Rightarrow> 'v option" where
  "getProperty obj k = (case map_of obj k of None \<Rightarrow> None | Some v \<Rightarrow> v)"

text \<open>The place of a new array-index key: before the first key that is no smaller index.\<close>

fun insertIndexKey :: "nat \<Rightarrow> string \<Rightarrow> 'v option \<Rightarrow> 'v jsobject \<Rightarrow> 'v jsobject" where
  "insertIndexKey n k v [] = [(k, v)]"
| "insertIndexKey n k v (p # rest) =
     (case arrayIndex (fst p) of
        Some m \<Rightarrow> if m < n then p # insertIndexKey n k v rest else (k, v) # p # rest
      | None \<Rightarrow> (k, v) # p # rest)"

text \<open>
  \<^verbatim>\<open>{...obj, [k]: v}\<close>: the copy of \<open>obj\<close> with \<open>k\<close> set to \<open>v\<close>. An existing key keeps
  its place; a new one is created at the place its kind of key gets.
\<close>

definition setProperty :: "'v jsobject \<Rightarrow> string \<Rightarrow> 'v option \<Rightarrow> 'v jsobject" where
  "setProperty obj k v =
     (if hasOwnProperty obj k then map (\<lambda>p. if fst p = k then (k, v) else p) obj
      else case arrayIndex k of
             Some n \<Rightarrow> insertIndexKey n k v obj
           | None \<Rightarrow> obj @ [(k, v)])"

text \<open>\<^verbatim>\<open>const {[k]: removed, ...rest} = obj\<close>: the rest object.\<close>

definition omitProperty :: "'v jsobject \<Rightarrow> string \<Rightarrow> 'v jsobject" where
  "omitProperty obj k = filter (\<lambda>p. fst p \<noteq> k) obj"

text \<open>The representation invariant: keys are unique and stand in enumeration order.\<close>

definition keyPrecedes :: "string \<Rightarrow> string \<Rightarrow> bool" where
  "keyPrecedes k1 k2 =
     (case arrayIndex k2 of
        None \<Rightarrow> True
      | Some n \<Rightarrow> (case arrayIndex k1 of None \<Rightarrow> False | Some m \<Rightarrow> m < n))"

definition wfObject :: "'v jsobject \<Rightarrow> bool" where
  "wfObject obj = (distinct (objectKeys obj) \<and> sorted_wrt keyPrecedes (objectKeys obj))"

text \<open>No property of the object is \<^verbatim>\<open>undefined\<close>.\<close>

definition allDefined :: "'v jsobject \<Rightarrow> bool" where
  "allDefined obj = list_all (\<lambda>p. snd p \<noteq> None) obj"

subsection \<open>String.prototype.trim\<close>

text \<open>
  The white space and line terminators among the code units below 256: tab, line feed,
  vertical tab, form feed, carriage return, space and no-break space.
\<close>

definition isWhiteSpace :: "char \<Rightarrow> bool" where
  "isWhiteSpace c = (c \<in> set [CHR 0x09, CHR 0x0A, CHR 0x0B, CHR 0x0C, CHR 0x0D, CHR 0x20, CHR 0xA0])"

definition trim :: "string \<Rightarrow> string" where
  "trim s = rev (dropWhile isWhiteSpace (rev (dropWhile isWhiteSpace s)))"

section \<open>The format-list controller (class AnkiController)\<close>

subsection \<open>Card formats and the page elements the controller holds\<close>

datatype DictionaryEntryType = TermEntry | KanjiEntry

fun entryTypeName :: "DictionaryEntryType \<Rightarrow> string" where
  "entryTypeName TermEntry = ''term''"
| "entryTypeName KanjiEntry = ''kanji''"

record AnkiField =
  fieldValue :: string
  overwriteMode :: string

type_synonym AnkiFields = "AnkiField jsobject"

record AnkiCardFormat =
  formatName :: string
  formatType :: DictionaryEntryType
  formatDeck :: string
  formatModel :: string
  formatFields :: AnkiFields
  formatIcon :: string

text \<open>
  \<^verbatim>\<open>ObjectPropertyAccessor.getPathString(['anki', 'cardFormats', i, leaf])\<close> is kept as
  the path it prints: the index and the leaf. A \<^verbatim>\<open>dataset\<close> entry that holds the decimal
  print of an index is kept as that integer.
\<close>

datatype settingPath = CardFormatPath int string

record Control =
  dataSetting :: "settingPath option"
  dataIcon :: "string option"

text \<open>
  The element \<^verbatim>\<open>#anki-card-primary\<close>; a child is \<open>None\<close> when the markup has no element
  for its selector.
\<close>

record CardPrimary =
  dataCardFormatIndex :: "int option"
  dataAnkiCardMenu :: "string option"
  cardTypeSelect :: "Control option"
  cardIconSelect :: "Control option"
  cardDeckInput :: "Control option"
  cardModelInput :: "Control option"

record Tab =
  tabType :: DictionaryEntryType
  tabAnkiCardMenu :: string
  tabCardFormatIndex :: int
  tabLabel :: string
  tabChecked :: bool

record RemoveModal =
  modalVisible :: bool
  modalCardFormatIndex :: "int option"

record JsError =
  errorName :: string
  errorMessage :: string

text \<open>
  The controller's fields, and with them the card formats of the profile as the settings
  store holds them (\<open>profileCardFormats\<close>): \<^verbatim>\<open>_ankiOptions\<close> is the copy the controller
  received at the last \<^verbatim>\<open>optionsChanged\<close>, \<open>None\<close> while it is \<^verbatim>\<open>null\<close>. The dialog
  \<^verbatim>\<open>_cardFormatRemoveModal\<close> is the one \<^verbatim>\<open>prepare\<close> has stored; the dialog
  \<^verbatim>\<open>_cardFormatMaximumModal\<close>, which the code reaches through \<^verbatim>\<open>?.\<close>, is \<open>None\<close> when the
  page has none, and otherwise holds whether it is visible.
\<close>

record AnkiController =
  profileCardFormats :: "AnkiCardFormat list"
  ankiOptions :: "AnkiCardFormat list option"
  cardFormatIndex :: int
  ankiCardPrimary :: "CardPrimary option"
  ankiCardNameInput :: Control
  ankiCardsTabs :: "Tab list"
  cardFormatDeleteButtonDisabled :: bool
  cardFormatRemoveModal :: RemoveModal
  cardFormatRemoveName :: string
  cardFormatMaximumModal :: "bool option"
  ankiConnectEnabled :: bool
  ankiErrorMessageNodeDefaultContent :: string
  ankiErrorMessageText :: string
  ankiErrorMessageDanger :: bool
  ankiError :: "JsError option"

subsection \<open>Selecting a format\<close>

text \<open>\<^verbatim>\<open>this._ankiOptions?.cardFormats[cardFormatIndex]?.icon ?? 'big-circle'\<close>\<close>

definition selectedIcon :: "AnkiController \<Rightarrow> int \<Rightarrow> string" where
  "selectedIcon st i =
     (case ankiOptions st of
        None \<Rightarrow> ''big-circle''
      | Some cardFormats \<Rightarrow>
          if 0 \<le> i \<and> i < int (length cardFormats) then formatIcon (cardFormats ! nat i)
          else ''big-circle'')"

definition setCardFormatIndex ::
  "int \<Rightarrow> string option \<Rightarrow> AnkiController \<Rightarrow> AnkiController outcome" where
  "setCardFormatIndex i ankiCardMenu st =
     (let st1 = st\<lparr>cardFormatIndex := i\<rparr> in
      (case ankiCardPrimary st1 of
         None \<Rightarrow> Threw (Error ''Anki card primary element not found'') st1
       | Some p \<Rightarrow>
          (let p1 = p\<lparr>dataCardFormatIndex := Some i, dataAnkiCardMenu := ankiCardMenu\<rparr>;
               st2 = st1\<lparr>ankiCardPrimary := Some p1,
                         ankiCardNameInput :=
                           (ankiCardNameInput st1)\<lparr>dataSetting := Some (CardFormatPath i ''name'')\<rparr>\<rparr>
           in (case cardTypeSelect p1 of
                 None \<Rightarrow> Threw (ElementNotFound ''.anki-card-type'') st2
               | Some typeSelect \<Rightarrow>
          (let p2 = p1\<lparr>cardTypeSelect :=
                         Some (typeSelect\<lparr>dataSetting := Some (CardFormatPath i ''type'')\<rparr>)\<rparr>;
               st3 = st2\<lparr>ankiCardPrimary := Some p2\<rparr>
           in (case cardIconSelect p2 of
                 None \<Rightarrow> Threw (ElementNotFound ''.anki-card-icon'') st3
               | Some iconSelect \<Rightarrow>
          (let p3 = p2\<lparr>cardIconSelect :=
                         Some (iconSelect\<lparr>dataSetting := Some (CardFormatPath i ''icon''),
                                          dataIcon := Some (selectedIcon st i)\<rparr>)\<rparr>;
               st4 = st3\<lparr>ankiCardPrimary := Some p3\<rparr>
           in (case cardDeckInput p3 of
                 None \<Rightarrow> Threw (ElementNotFound ''.anki-card-deck'') st4
               | Some deckInput \<Rightarrow>
          (let p4 = p3\<lparr>cardDeckInput :=
                         Some (deckInput\<lparr>dataSetting := Some (CardFormatPath i ''deck'')\<rparr>)\<rparr>;
               st5 = st4\<lparr>ankiCardPrimary := Some p4\<rparr>
           in (case cardModelInput p4 of
                 None \<Rightarrow> Threw (ElementNotFound ''.anki-card-model'') st5
               | Some modelInput \<Rightarrow>
          (let p5 = p4\<lparr>cardModelInput :=
                         Some (modelInput\<lparr>dataSetting := Some (CardFormatPath i ''model'')\<rparr>)\<rparr>
           in Returned (st5\<lparr>ankiCardPrimary := Some p5\<rparr>))))))))))))"

subsection \<open>Rebuilding the tab strip\<close>

definition createCardFormatTab :: "AnkiCardFormat \<Rightarrow> int \<Rightarrow> Tab" where
  "createCardFormatTab cardFormat i =
     \<lparr>tabType = formatType cardFormat,
      tabAnkiCardMenu = ''anki-card-'' @ entryTypeName (formatType cardFormat) @ ''-field-menu'',
      tabCardFormatIndex = i,
      tabLabel = formatName cardFormat,
      tabChecked = False\<rparr>"

definition setupTabs :: "AnkiCardFormat list \<Rightarrow> AnkiController \<Rightarrow> AnkiController outcome" where
  "setupTabs cardFormats st =
     (let n = int (length cardFormats);
          i1 = (if cardFormatIndex st > n then n - 1 else cardFormatIndex st);
          i2 = (if i1 < 0 then 0 else i1);
          tabs = map (\<lambda>(i, cardFormat).
                    (createCardFormatTab cardFormat (int i))\<lparr>tabChecked := (int i = i2)\<rparr>)
                   (enumerate 0 cardFormats);
          st1 = st\<lparr>cardFormatIndex := i2, ankiCardsTabs := tabs,
                    cardFormatDeleteButtonDisabled := (n \<le> 1)\<rparr>
      in setCardFormatIndex i2 (Some ''anki-card-term-field-menu'') st1)"

text \<open>
  \<^verbatim>\<open>_onOptionsChanged\<close> (the part that concerns the card formats) and \<^verbatim>\<open>_updateOptions\<close>,
  which reads the options back from the settings store.
\<close>

definition onOptionsChanged :: "AnkiCardFormat list \<Rightarrow> AnkiController \<Rightarrow> AnkiController outcome" where
  "onOptionsChanged cardFormats st = setupTabs cardFormats (st\<lparr>ankiOptions := Some cardFormats\<rparr>)"

definition updateOptions :: "AnkiController \<Rightarrow> AnkiController outcome" where
  "updateOptions st = onOptionsChanged (profileCardFormats st) st"

subsection \<open>Adding and deleting formats\<close>

text \<open>
  The \<^verbatim>\<open>splice\<close> action of \<^verbatim>\<open>modifyProfileSettings\<close> on an array of the profile:
  \<^verbatim>\<open>array.splice(start, deleteCount, ...items)\<close>.
\<close>

definition arraySplice :: "'a list \<Rightarrow> nat \<Rightarrow> nat \<Rightarrow> 'a list \<Rightarrow> 'a list" where
  "arraySplice xs start deleteCount items = take start xs @ items @ drop (start + deleteCount) xs"

definition newCardFormat :: "nat \<Rightarrow> AnkiCardFormat" where
  "newCardFormat index =
     \<lparr>formatName = ''Format '' @ decimal (index + 1),
      formatType = TermEntry,
      formatDeck = [],
      formatModel = [],
      formatFields = [],
      formatIcon = ''big-circle''\<rparr>"

text \<open>
  \<^verbatim>\<open>_addNewFormat\<close> is suspended at \<^verbatim>\<open>await this._settingsController.getOptions()\<close>, and
  the click handler starts it without waiting for an earlier call to finish. What a call
  holds when it resumes is the length of the list the store had when it answered
  (\<open>addNewFormatIndex\<close>); the rest of the function (\<open>addNewFormatResume\<close>) tests and uses that
  index on the state the page has by then. A call that no other call overlaps is the two
  pieces on the same state (\<open>addNewFormat\<close>).
\<close>

definition addNewFormatIndex :: "AnkiController \<Rightarrow> nat" where
  "addNewFormatIndex st = length (profileCardFormats st)"

definition addNewFormatResume :: "nat \<Rightarrow> AnkiController \<Rightarrow> AnkiController outcome" where
  "addNewFormatResume index st =
     (if index \<ge> 5 then
        Returned (st\<lparr>cardFormatMaximumModal := map_option (\<lambda>_. True) (cardFormatMaximumModal st)\<rparr>)
      else
        updateOptions
          (st\<lparr>profileCardFormats := arraySplice (profileCardFormats st) index 0 [newCardFormat index]\<rparr>))"

definition addNewFormat :: "AnkiController \<Rightarrow> AnkiController outcome" where
  "addNewFormat st = addNewFormatResume (addNewFormatIndex st) st"

definition getCardFormat :: "AnkiController \<Rightarrow> int \<Rightarrow> AnkiCardFormat option" where
  "getCardFormat st i =
     (case ankiOptions st of
        None \<Rightarrow> None
      | Some cardFormats \<Rightarrow>
          if i < 0 \<or> i \<ge> int (length cardFormats) then None else Some (cardFormats ! nat i))"

definition openDeleteCardFormatModal :: "int \<Rightarrow> AnkiController \<Rightarrow> AnkiController" where
  "openDeleteCardFormatModal i st =
     (case getCardFormat st i of
        None \<Rightarrow> st
      | Some cardFormat \<Rightarrow>
          st\<lparr>cardFormatRemoveName := formatName cardFormat,
             cardFormatRemoveModal := \<lparr>modalVisible = True, modalCardFormatIndex = Some i\<rparr>\<rparr>)"

definition onCardFormatDeleteClick :: "AnkiController \<Rightarrow> AnkiController" where
  "onCardFormatDeleteClick st =
     (if (case ankiOptions st of None \<Rightarrow> False | Some cardFormats \<Rightarrow> length cardFormats = 1)
      then st
      else openDeleteCardFormatModal (cardFormatIndex st) st)"

definition tryGetValidCardFormatIndex :: "AnkiController \<Rightarrow> int option \<Rightarrow> int option" where
  "tryGetValidCardFormatIndex st stringValue =
     (case stringValue of
        None \<Rightarrow> None
      | Some intValue \<Rightarrow>
          (case ankiOptions st of
             None \<Rightarrow> None
           | Some cardFormats \<Rightarrow>
               if intValue \<ge> 0 \<and> intValue < int (length cardFormats) then Some intValue else None))"

definition deleteCardFormat :: "int \<Rightarrow> AnkiController \<Rightarrow> AnkiController outcome" where
  "deleteCardFormat i st =
     (case ankiOptions st of
        None \<Rightarrow> Returned st
      | Some cardFormats \<Rightarrow>
          if i < 0 \<or> i \<ge> int (length cardFormats) then Returned st
          else updateOptions
                 (st\<lparr>profileCardFormats := arraySplice (profileCardFormats st) (nat i) 1 [],
                     cardFormatIndex := i - 1\<rparr>))"

definition onCardFormatRemoveConfirm :: "AnkiController \<Rightarrow> AnkiController outcome" where
  "onCardFormatRemoveConfirm st =
     (let cardFormatIndexData = modalCardFormatIndex (cardFormatRemoveModal st);
          st1 = st\<lparr>cardFormatRemoveModal := \<lparr>modalVisible = False, modalCardFormatIndex = None\<rparr>\<rparr>
      in case tryGetValidCardFormatIndex st1 cardFormatIndexData of
           None \<Rightarrow> Returned st1
         | Some validCardFormatIndex \<Rightarrow> deleteCardFormat validCardFormatIndex st1)"

text \<open>
  Deleting a format as the page offers it: the delete button, and the confirm button of
  the dialog when the click opened it.
\<close>

definition deleteFormat :: "AnkiController \<Rightarrow> AnkiController outcome" where
  "deleteFormat st =
     (let st1 = onCardFormatDeleteClick st in
      if modalVisible (cardFormatRemoveModal st1) then onCardFormatRemoveConfirm st1
      else Returned st1)"

subsection \<open>Fetching deck and model names, and showing an error\<close>

record AnkiData =
  deckNames :: "string list"
  modelNames :: "string list"

text \<open>\<^verbatim>\<open>Error.prototype.toString\<close>, which \<^verbatim>\<open>`${error}`\<close> calls.\<close>

definition errorToString :: "JsError \<Rightarrow> string" where
  "errorToString e =
     (if errorName e = [] then errorMessage e
      else if errorMessage e = [] then errorName e
      else errorName e @ '': '' @ errorMessage e)"

text \<open>\<^verbatim>\<open>/[.!?]$/.test(s)\<close>: without the \<^verbatim>\<open>m\<close> flag, \<^verbatim>\<open>$\<close> is the end of the string.\<close>

definition endsWithTerminalPunctuation :: "string \<Rightarrow> bool" where
  "endsWithTerminalPunctuation s = (s \<noteq> [] \<and> last s \<in> set ''.!?'')"

definition showAnkiError :: "JsError \<Rightarrow> AnkiController \<Rightarrow> AnkiController" where
  "showAnkiError e st =
     (let errorString0 = errorMessage e;
          errorString1 = (if errorString0 = [] then errorToString e else errorString0);
          errorString2 = (if \<not> endsWithTerminalPunctuation errorString1 then errorString1 @ ''.''
                          else errorString1)
      in st\<lparr>ankiError := Some e, ankiErrorMessageText := errorString2,
            ankiErrorMessageDanger := True\<rparr>)"

definition hideAnkiError :: "AnkiController \<Rightarrow> AnkiController" where
  "hideAnkiError st =
     st\<lparr>ankiErrorMessageText := (if ankiConnectEnabled st then ''Enabled'' else ''Not enabled''),
        ankiErrorMessageDanger := False, ankiError := None\<rparr>"

definition setAnkiStatusChanging :: "AnkiController \<Rightarrow> AnkiController" where
  "setAnkiStatusChanging st =
     st\<lparr>ankiErrorMessageText := ankiErrorMessageNodeDefaultContent st,
        ankiErrorMessageDanger := False\<rparr>"

text \<open>
  \<^verbatim>\<open>_getDeckNames\<close> and \<^verbatim>\<open>_getModelNames\<close>. What the awaited call of the note API did is
  the argument: \<open>Inl x\<close> when it threw \<open>x\<close>, \<open>Inr names\<close> when it answered. The functions
  \<^verbatim>\<open>toError\<close> (core/to-error.js) and the collation of \<^verbatim>\<open>_sortStringArray\<close> are parameters.
\<close>

definition getDeckNames ::
  "('x \<Rightarrow> JsError) \<Rightarrow> (string list \<Rightarrow> string list) \<Rightarrow> 'x + string list
     \<Rightarrow> string list \<times> JsError option" where
  "getDeckNames toError sortStringArray answer =
     (case answer of
        Inr result \<Rightarrow> (sortStringArray result, None)
      | Inl e \<Rightarrow> ([], Some (toError e)))"

definition getModelNames ::
  "('x \<Rightarrow> JsError) \<Rightarrow> (string list \<Rightarrow> string list) \<Rightarrow> 'x + string list
     \<Rightarrow> string list \<times> JsError option" where
  "getModelNames toError sortStringArray answer =
     (case answer of
        Inr result \<Rightarrow> (sortStringArray result, None)
      | Inl e \<Rightarrow> ([], Some (toError e)))"

definition getAnkiData ::
  "('x \<Rightarrow> JsError) \<Rightarrow> (string list \<Rightarrow> string list) \<Rightarrow> 'x + string list \<Rightarrow> 'x + string list
     \<Rightarrow> AnkiController \<Rightarrow> AnkiData \<times> AnkiController" where
  "getAnkiData toError sortStringArray deckAnswer modelAnswer st =
     (let st1 = setAnkiStatusChanging st;
          (deckNames, getDeckNamesError) = getDeckNames toError sortStringArray deckAnswer;
          (modelNames, getModelNamesError) = getModelNames toError sortStringArray modelAnswer;
          st2 = (case getDeckNamesError of
                   Some e \<Rightarrow> showAnkiError e st1
                 | None \<Rightarrow>
                     (case getModelNamesError of
                        Some e \<Rightarrow> showAnkiError e st1
                      | None \<Rightarrow> hideAnkiError st1))
      in (\<lparr>deckNames = deckNames, modelNames = modelNames\<rparr>, st2))"

section \<open>The field-set editor (class AnkiCardController)\<close>

subsection \<open>Rows and their validation\<close>

text \<open>The input \<^verbatim>\<open>.anki-card-field-value\<close> of a row, with the \<^verbatim>\<open>dataset\<close> entries it carries.\<close>

record FieldInput =
  inputValue :: string
  dataHasPermissions :: "string option"
  dataRequiredPermission :: "string option"
  dataInvalid :: "string option"

record FieldEntry =
  entryFieldName :: string
  entryInputField :: FieldInput

text \<open>
  Functions of modules that are not part of this file, taken as parameters:
  \<^verbatim>\<open>stringContainsAnyFieldMarker\<close> (data/anki-util.js), \<^verbatim>\<open>getRequiredPermissionsForAnkiFieldValue\<close>
  and \<^verbatim>\<open>hasPermissions\<close> (data/permissions-util.js, the latter as the answer the browser
  gives for a list of permissions).
\<close>

record Collaborators =
  stringContainsAnyFieldMarker :: "string \<Rightarrow> bool"
  getRequiredPermissions :: "string \<Rightarrow> string list"
  hasPermissions :: "string list \<Rightarrow> bool"

text \<open>
  The editor's fields, and with them the fields of its format as the settings store
  holds them (\<open>profileFields\<close>).
\<close>

record AnkiCardController =
  cardFields :: AnkiFields
  fieldEntries :: "FieldEntry list"
  profileFields :: AnkiFields

text \<open>\<^verbatim>\<open>`${b}`\<close> for a boolean.\<close>

definition boolString :: "bool \<Rightarrow> string" where
  "boolString b = (if b then ''true'' else ''false'')"

definition validateField :: "(string \<Rightarrow> bool) \<Rightarrow> FieldInput \<Rightarrow> nat \<Rightarrow> FieldInput" where
  "validateField containsAnyFieldMarker node index =
     (let valid0 = (dataHasPermissions node \<noteq> Some ''false'');
          valid = (if valid0 \<and> index = 0 \<and> \<not> containsAnyFieldMarker (inputValue node) then False
                   else valid0)
      in node\<lparr>dataInvalid := Some (boolString (\<not> valid))\<rparr>)"

text \<open>\<^verbatim>\<open>permissions.join(' ')\<close>\<close>

fun joinWithSpace :: "string list \<Rightarrow> string" where
  "joinWithSpace [] = []"
| "joinWithSpace [x] = x"
| "joinWithSpace (x # y # ys) = x @ '' '' @ joinWithSpace (y # ys)"

text \<open>
  \<^verbatim>\<open>_validateFieldPermissions\<close>, with the awaited answer of the permission call
  (\<^verbatim>\<open>setPermissionsGranted\<close> or \<^verbatim>\<open>hasPermissions\<close>) as the argument \<open>answer\<close>.
\<close>

definition validateFieldPermissions ::
  "(string \<Rightarrow> bool) \<Rightarrow> (string \<Rightarrow> string list) \<Rightarrow> bool \<Rightarrow> FieldInput \<Rightarrow> nat \<Rightarrow> FieldInput" where
  "validateFieldPermissions containsAnyFieldMarker requiredPermissions answer node index =
     (let permissions = requiredPermissions (inputValue node);
          node1 = (if length permissions > 0
                   then node\<lparr>dataRequiredPermission := Some (joinWithSpace permissions),
                             dataHasPermissions := Some (boolString answer)\<rparr>
                   else node\<lparr>dataRequiredPermission := None, dataHasPermissions := None\<rparr>)
      in validateField containsAnyFieldMarker node1 index)"

subsection \<open>Rendering the rows\<close>

definition createFieldEntry :: "Collaborators \<Rightarrow> nat \<Rightarrow> string \<Rightarrow> AnkiField \<Rightarrow> FieldEntry" where
  "createFieldEntry env index fieldName field =
     (let inputField0 = \<lparr>inputValue = fieldValue field, dataHasPermissions = None,
                         dataRequiredPermission = None, dataInvalid = None\<rparr>;
          inputField = validateFieldPermissions (stringContainsAnyFieldMarker env)
                         (getRequiredPermissions env)
                         (hasPermissions env (getRequiredPermissions env (fieldValue field)))
                         inputField0 index
      in \<lparr>entryFieldName = fieldName, entryInputField = inputField\<rparr>)"

text \<open>
  The loop of \<^verbatim>\<open>_setupFields\<close> over \<^verbatim>\<open>Object.entries(this._fields)\<close>. Destructuring
  \<^verbatim>\<open>{value: fieldValue}\<close> from a property that is \<^verbatim>\<open>undefined\<close> throws.
\<close>

fun setupFieldRows ::
  "Collaborators \<Rightarrow> nat \<Rightarrow> (string \<times> AnkiField option) list \<Rightarrow> FieldEntry list
     \<Rightarrow> FieldEntry list outcome" where
  "setupFieldRows env index [] entries = Returned entries"
| "setupFieldRows env index ((fieldName, None) # rest) entries =
     Threw (TypeError ''Cannot destructure property value of undefined'') entries"
| "setupFieldRows env index ((fieldName, Some field) # rest) entries =
     setupFieldRows env (Suc index) rest (entries @ [createFieldEntry env index fieldName field])"

definition setupFields :: "Collaborators \<Rightarrow> AnkiCardController \<Rightarrow> AnkiCardController outcome" where
  "setupFields env st =
     (case setupFieldRows env 0 (objectEntries (cardFields st)) [] of
        Returned entries \<Rightarrow> Returned (st\<lparr>fieldEntries := entries\<rparr>)
      | Threw e entries \<Rightarrow> Threw e (st\<lparr>fieldEntries := entries\<rparr>))"

subsection \<open>Adding a field\<close>

text \<open>
  The loop of \<^verbatim>\<open>_onAddFieldClick\<close>:
  \<^verbatim>\<open>while (hasOwnProperty(fields, name)) { name = `${baseName}${++counter}`; }\<close>
  It is a total function: each round moves to a candidate that was not tried before, and
  only finitely many candidates are keys of the object.
\<close>

function findFieldName :: "'v jsobject \<Rightarrow> string \<Rightarrow> nat \<Rightarrow> string" where
  "findFieldName ankiFields name counter =
     (if hasOwnProperty ankiFields name
      then findFieldName ankiFields (''Field'' @ decimal (Suc counter)) (Suc counter)
      else name)"
  by pat_completeness auto
termination
proof (relation "measure (\<lambda>(ankiFields, name, counter).
          2 * card {n. counter < n \<and> ''Field'' @ decimal n \<in> set (objectKeys ankiFields)}
          + (if hasOwnProperty ankiFields name then 1 else 0))")
  show "wf (measure (\<lambda>(ankiFields :: 'v jsobject, name, counter).
          2 * card {n. counter < n \<and> ''Field'' @ decimal n \<in> set (objectKeys ankiFields)}
          + (if hasOwnProperty ankiFields name then 1 else 0)))"
    by simp
next
  fix ankiFields :: "'v jsobject" and name :: string and counter :: nat
  assume has: "hasOwnProperty ankiFields name"
  let ?K = "set (objectKeys ankiFields)"
  let ?A = "\<lambda>c. {n. c < n \<and> ''Field'' @ decimal n \<in> ?K}"
  have snoc: "parseDecimal (s @ [c]) = 10 * parseDecimal s + digitValue c" for s c
    by (simp add: parseDecimal_def)
  have digit: "digitValue (digitChar d) = d" if "d < 10" for d
  proof -
    from that have "d = 0 \<or> d = 1 \<or> d = 2 \<or> d = 3 \<or> d = 4 \<or> d = 5 \<or> d = 6 \<or> d = 7
        \<or> d = 8 \<or> d = 9"
      by arith
    then show ?thesis
      by (elim disjE) (simp_all add: digitValue_def digitChar_def)
  qed
  have roundtrip: "parseDecimal (decimal n) = n" for n
  proof (induction n rule: decimal.induct)
    case (1 n)
    show ?case
    proof (cases "n < 10")
      case True
      then show ?thesis
        by (simp add: decimal.simps [of n] parseDecimal_def digit)
    next
      case False
      have "digitValue (digitChar (n mod 10)) = n mod 10"
        by (simp add: digit)
      with False 1 show ?thesis
        by (simp add: decimal.simps [of n] snoc)
    qed
  qed
  have "inj (\<lambda>n. ''Field'' @ decimal n)"
  proof (rule injI)
    fix m n assume "''Field'' @ decimal m = ''Field'' @ decimal n"
    then have "parseDecimal (decimal m) = parseDecimal (decimal n)" by simp
    then show "m = n" by (simp add: roundtrip)
  qed
  then have "finite ((\<lambda>n. ''Field'' @ decimal n) -` ?K)"
    by (rule finite_vimageI [rotated]) simp
  then have fin: "finite (?A c)" for c
    by (rule rev_finite_subset) auto
  have split: "c < n \<longleftrightarrow> n = Suc c \<or> Suc c < n" for c n :: nat
    by auto
  have step: "?A counter = (if ''Field'' @ decimal (Suc counter) \<in> ?K
                 then insert (Suc counter) (?A (Suc counter)) else ?A (Suc counter))"
    by (auto simp: split [of counter])
  show "((ankiFields, ''Field'' @ decimal (Suc counter), Suc counter), (ankiFields, name, counter))
        \<in> measure (\<lambda>(ankiFields, name, counter).
          2 * card {n. counter < n \<and> ''Field'' @ decimal n \<in> set (objectKeys ankiFields)}
          + (if hasOwnProperty ankiFields name then 1 else 0))"
  proof (cases "''Field'' @ decimal (Suc counter) \<in> ?K")
    case True
    have "card (?A counter) = Suc (card (?A (Suc counter)))"
      using True fin [of "Suc counter"] by (subst step) simp
    with True has show ?thesis by (simp add: hasOwnProperty_def)
  next
    case False
    have "card (?A counter) = card (?A (Suc counter))"
      using False by (subst step) simp
    with False has show ?thesis by (simp add: hasOwnProperty_def)
  qed
qed

declare findFieldName.simps [simp del]

text \<open>
  \<^verbatim>\<open>_onAddFieldClick\<close>. The field \<^verbatim>\<open>_fields\<close> always holds an object (the constructor sets
  it to \<^verbatim>\<open>{}\<close>), so the handler's test for \<^verbatim>\<open>null\<close> never returns. The \<^verbatim>\<open>set\<close> action of
  \<^verbatim>\<open>modifyProfileSettings\<close> stores the new object in the profile.
\<close>

definition onAddFieldClick :: "Collaborators \<Rightarrow> AnkiCardController \<Rightarrow> AnkiCardController outcome" where
  "onAddFieldClick env st =
     (let name = findFieldName (cardFields st) ''Field'' 0;
          newField = \<lparr>fieldValue = [], overwriteMode = ''coalesce''\<rparr>;
          newFields = setProperty (cardFields st) name (Some newField)
      in setupFields env (st\<lparr>profileFields := newFields, cardFields := newFields\<rparr>))"

subsection \<open>Renaming a field\<close>

fun withNodeValue :: "string \<Rightarrow> 'a outcome \<Rightarrow> (string \<times> 'a) outcome" where
  "withNodeValue v (Returned s) = Returned (v, s)"
| "withNodeValue v (Threw e s) = Threw e (v, s)"

text \<open>
  \<^verbatim>\<open>_onFieldNameBlur(index, e)\<close>: \<open>nodeValue\<close> is the text of the name input that lost the
  focus. The result pairs the text the input shows afterwards with the editor's state.
\<close>

definition onFieldNameBlur ::
  "Collaborators \<Rightarrow> nat \<Rightarrow> string \<Rightarrow> AnkiCardController
     \<Rightarrow> (string \<times> AnkiCardController) outcome" where
  "onFieldNameBlur env index nodeValue st =
     (let newName = trim nodeValue in
      if index \<ge> length (fieldEntries st) then Returned (nodeValue, st)
      else
        (let oldName = entryFieldName (fieldEntries st ! index) in
         if newName = oldName then Returned (nodeValue, st)
         else if newName = [] then Returned (oldName, st)
         else if hasOwnProperty (cardFields st) newName then Returned (oldName, st)
         else
           (let removed = getProperty (cardFields st) oldName;
                rest = omitProperty (cardFields st) oldName;
                newFields = setProperty rest newName removed
            in withNodeValue nodeValue
                 (setupFields env (st\<lparr>profileFields := newFields, cardFields := newFields\<rparr>)))))"

subsection \<open>The default marker of a field\<close>

text \<open>
  The entries given to \<^verbatim>\<open>new Map([...])\<close>, in the order of the source. The constructor
  sets them one after the other, so a later entry replaces the value of an earlier one
  with the same key.
\<close>

definition markerAliasEntries :: "(string \<times> string list) list" where
  "markerAliasEntries =
     [(''expression'', [''phrase'', ''term'', ''word'']),
      (''reading'', [''expression-reading'', ''term-reading'', ''word-reading'']),
      (''furigana'', [''expression-furigana'', ''term-furigana'', ''word-furigana'']),
      (''glossary'', [''definition'', ''meaning'']),
      (''audio'', [''sound'', ''word-audio'', ''term-audio'', ''expression-audio'']),
      (''dictionary'', [''dict'']),
      (''pitch-accents'', [''pitch'', ''pitch-accent'', ''pitch-pattern'']),
      (''sentence'', [''example-sentence'']),
      (''frequency-harmonic-rank'', [''freq'', ''frequency'', ''freq-sort'', ''freqency-sort'']),
      (''popup-selection-text'', [''selection'']),
      (''pitch-accent-positions'', [''pitch-position'']),
      (''pitch-accent-categories'', [''pitch-categories'']),
      (''popup-selection-text'', [''selection-text''])]"

definition markerAliases :: "string \<Rightarrow> string list option" where
  "markerAliases marker = map_of (rev markerAliasEntries) marker"

text \<open>
  The regular expression \<^verbatim>\<open>new RegExp('^(?:' + names... + ')$', 'i')\<close>. Every name is a
  sequence of atoms: \<^verbatim>\<open>name.replace(/-/g, '[-_ ]*')\<close> turns a hyphen into a run of
  separators and leaves every other character as a literal (marker names and aliases are
  made of letters, digits and hyphens, which the pattern syntax reads as themselves).
  Under the flag \<^verbatim>\<open>i\<close> two characters match when their canonical (upper case) forms
  are equal; \<open>canonicalize\<close> gives the code unit of that form.
\<close>

datatype atom = Literal char | SeparatorRun

definition replaceHyphens :: "string \<Rightarrow> atom list" where
  "replaceHyphens name = map (\<lambda>c. if c = CHR ''-'' then SeparatorRun else Literal c) name"

definition canonicalize :: "char \<Rightarrow> nat" where
  "canonicalize c =
     (let n = (of_char c :: nat) in
      if (97 \<le> n \<and> n \<le> 122) \<or> (224 \<le> n \<and> n \<le> 254 \<and> n \<noteq> 247) then n - 32 else n)"

definition isSeparator :: "char \<Rightarrow> bool" where
  "isSeparator c = (c \<in> set ''-_ '')"

fun matchAtoms :: "atom list \<Rightarrow> string \<Rightarrow> bool" where
  "matchAtoms [] s = (s = [])"
| "matchAtoms (Literal c # atoms) [] = False"
| "matchAtoms (Literal c # atoms) (d # s) = (canonicalize c = canonicalize d \<and> matchAtoms atoms s)"
| "matchAtoms (SeparatorRun # atoms) [] = matchAtoms atoms []"
| "matchAtoms (SeparatorRun # atoms) (d # s) =
     ((isSeparator d \<and> matchAtoms (SeparatorRun # atoms) s) \<or> matchAtoms atoms (d # s))"

definition patternTest :: "string list \<Rightarrow> string \<Rightarrow> bool" where
  "patternTest names fieldName = list_ex (\<lambda>name. matchAtoms (replaceHyphens name) fieldName) names"

text \<open>The loop of \<^verbatim>\<open>_getDefaultFieldValue\<close> over the markers.\<close>

fun findDefaultMarker :: "string list \<Rightarrow> string \<Rightarrow> string" where
  "findDefaultMarker [] fieldName = []"
| "findDefaultMarker (marker # markers) fieldName =
     (let names = marker # (case markerAliases marker of None \<Rightarrow> [] | Some aliases \<Rightarrow> aliases) in
      if patternTest names fieldName then ''{'' @ marker @ ''}''
      else findDefaultMarker markers fieldName)"

text \<open>
  \<^verbatim>\<open>_getDefaultFieldValue\<close>. The table \<^verbatim>\<open>getStandardFieldMarkers\<close> (data/anki-template-util.js)
  is not part of this file and is a parameter. Reading \<^verbatim>\<open>.value\<close> of a property that is
  \<^verbatim>\<open>undefined\<close> throws.
\<close>

definition getDefaultFieldValue ::
  "(DictionaryEntryType \<Rightarrow> string list) \<Rightarrow> string \<Rightarrow> nat \<Rightarrow> DictionaryEntryType
     \<Rightarrow> AnkiFields option \<Rightarrow> error + string" where
  "getDefaultFieldValue getStandardFieldMarkers fieldName index dictionaryEntryType oldFields =
     (let found = (case oldFields of
                     None \<Rightarrow> None
                   | Some old \<Rightarrow>
                       if hasOwnProperty old fieldName then Some (getProperty old fieldName)
                       else None)
      in case found of
           Some None \<Rightarrow> Inl (TypeError ''Cannot read properties of undefined'')
         | Some (Some field) \<Rightarrow> Inr (fieldValue field)
         | None \<Rightarrow>
             if index = 0 then
               Inr (if dictionaryEntryType = KanjiEntry then ''{character}'' else ''{expression}'')
             else Inr (findDefaultMarker (getStandardFieldMarkers dictionaryEntryType) fieldName))"

section \<open>The specification's wording, for comparison with the code\<close>

text \<open>
  A name matches a field name loosely: letter by letter without regard to case, where
  each hyphen of the name stands for any run of hyphens, underscores and spaces.
\<close>

inductive looseMatch :: "string \<Rightarrow> string \<Rightarrow> bool" where
  empty: "looseMatch [] []"
| letter: "c \<noteq> CHR ''-'' \<Longrightarrow> canonicalize c = canonicalize d \<Longrightarrow> looseMatch name s
           \<Longrightarrow> looseMatch (c # name) (d # s)"
| hyphen: "list_all isSeparator run \<Longrightarrow> looseMatch name s
           \<Longrightarrow> looseMatch (CHR ''-'' # name) (run @ s)"

text \<open>A marker answers for a field name when its own name or one of its aliases matches.\<close>

definition markerAnswers :: "string \<Rightarrow> string \<Rightarrow> bool" where
  "markerAnswers fieldName marker =
     (\<exists>name \<in> set (marker # (case markerAliases marker of None \<Rightarrow> [] | Some aliases \<Rightarrow> aliases)).
        looseMatch name fieldName)"

text \<open>The candidate names of a new field: \<^verbatim>\<open>Field\<close>, \<^verbatim>\<open>Field1\<close>, \<^verbatim>\<open>Field2\<close>, ...\<close>

definition candidateName :: "nat \<Rightarrow> string" where
  "candidateName n = (if n = 0 then ''Field'' else ''Field'' @ decimal n)"

text \<open>
  The selection the specification describes after deleting entry \<open>i\<close> with the cursor at
  \<open>sel\<close>: decremented when the deleted entry is before or at the cursor, unchanged
  otherwise.
\<close>

definition describedSelectionAfterDelete :: "int \<Rightarrow> int \<Rightarrow> int" where
  "describedSelectionAfterDelete sel i = (if i \<le> sel then sel - 1 else sel)"

section \<open>Example states\<close>

text \<open>A page with all its elements, and an editor, used to instantiate the theorems below.\<close>

definition exampleFormat :: "string \<Rightarrow> AnkiCardFormat" where
  "exampleFormat n =
     \<lparr>formatName = n, formatType = TermEntry, formatDeck = ''Default'', formatModel = ''Basic'',
      formatFields = [], formatIcon = ''big-circle''\<rparr>"

definition exampleControl :: Control where
  "exampleControl = \<lparr>dataSetting = None, dataIcon = None\<rparr>"

definition examplePanel :: CardPrimary where
  "examplePanel =
     \<lparr>dataCardFormatIndex = None, dataAnkiCardMenu = None,
      cardTypeSelect = Some exampleControl, cardIconSelect = Some exampleControl,
      cardDeckInput = Some exampleControl, cardModelInput = Some exampleControl\<rparr>"

definition exampleController :: "AnkiCardFormat list \<Rightarrow> int \<Rightarrow> AnkiController" where
  "exampleController cardFormats selected =
     \<lparr>profileCardFormats = cardFormats, ankiOptions = Some cardFormats,
      cardFormatIndex = selected, ankiCardPrimary = Some examplePanel,
      ankiCardNameInput = exampleControl, ankiCardsTabs = [],
      cardFormatDeleteButtonDisabled = False,
      cardFormatRemoveModal = \<lparr>modalVisible = False, modalCardFormatIndex = None\<rparr>,
      cardFormatRemoveName = [], cardFormatMaximumModal = Some False,
      ankiConnectEnabled = True, ankiErrorMessageNodeDefaultContent = [],
      ankiErrorMessageText = [], ankiErrorMessageDanger = False, ankiError = None\<rparr>"

definition exampleFourFormats :: AnkiController where
  "exampleFourFormats =
     exampleController
       [exampleFormat ''A'', exampleFormat ''B'', exampleFormat ''C'', exampleFormat ''D''] 0"

definition exampleField :: "string \<Rightarrow> AnkiField option" where
  "exampleField v = Some \<lparr>fieldValue = v, overwriteMode = ''overwrite''\<rparr>"

definition exampleFields :: AnkiFields where
  "exampleFields =
     [(''Front'', exampleField ''{expression}''),
      (''Reading'', exampleField ''{reading}''),
      (''Back'', exampleField ''{glossary}'')]"

definition exampleCollaborators :: Collaborators where
  "exampleCollaborators =
     \<lparr>stringContainsAnyFieldMarker = (\<lambda>s. CHR ''{'' \<in> set s),
      getRequiredPermissions = (\<lambda>s. if s = ''{clipboard-text}'' then [''clipboardRead''] else []),
      hasPermissions = (\<lambda>permissions. False)\<rparr>"

definition exampleEditor :: "AnkiFields \<Rightarrow> AnkiCardController" where
  "exampleEditor ankiFields =
     stateOf (setupFields exampleCollaborators
       \<lparr>cardFields = ankiFields, fieldEntries = [], profileFields = ankiFields\<rparr>)"

text \<open>A small marker table in the style of the template module's, for instantiation only.\<close>

definition exampleMarkers :: "DictionaryEntryType \<Rightarrow> string list" where
  "exampleMarkers t =
     (if t = KanjiEntry then [''character'', ''glossary'', ''kunyomi'', ''onyomi'', ''sentence'']
      else [''audio'', ''clipboard-text'', ''expression'', ''furigana'', ''glossary'',
            ''pitch-accents'', ''popup-selection-text'', ''reading'', ''sentence'', ''tags''])"

section \<open>Properties of the format-list controller\<close>

subsection \<open>What the operations leave alone\<close>

lemma setCardFormatIndex_frame:
  "profileCardFormats (stateOf (setCardFormatIndex i m st)) = profileCardFormats st"
  "ankiOptions (stateOf (setCardFormatIndex i m st)) = ankiOptions st"
  "cardFormatIndex (stateOf (setCardFormatIndex i m st)) = i"
  "cardFormatRemoveModal (stateOf (setCardFormatIndex i m st)) = cardFormatRemoveModal st"
  "cardFormatMaximumModal (stateOf (setCardFormatIndex i m st)) = cardFormatMaximumModal st"
  by (simp_all add: setCardFormatIndex_def Let_def split: option.splits)

lemma setupTabs_frame:
  "profileCardFormats (stateOf (setupTabs fs st)) = profileCardFormats st"
  "ankiOptions (stateOf (setupTabs fs st)) = ankiOptions st"
  "cardFormatIndex (stateOf (setupTabs fs st)) =
     max 0 (if cardFormatIndex st > int (length fs) then int (length fs) - 1 else cardFormatIndex st)"
  "cardFormatMaximumModal (stateOf (setupTabs fs st)) = cardFormatMaximumModal st"
  by (simp_all add: setupTabs_def Let_def setCardFormatIndex_frame max_def)

lemma updateOptions_frame:
  "profileCardFormats (stateOf (updateOptions st)) = profileCardFormats st"
  "ankiOptions (stateOf (updateOptions st)) = Some (profileCardFormats st)"
  "cardFormatIndex (stateOf (updateOptions st)) =
     max 0 (if cardFormatIndex st > int (length (profileCardFormats st))
            then int (length (profileCardFormats st)) - 1 else cardFormatIndex st)"
  "cardFormatMaximumModal (stateOf (updateOptions st)) = cardFormatMaximumModal st"
  by (simp_all add: updateOptions_def onOptionsChanged_def setupTabs_frame)

lemma deleteCardFormat_valid:
  assumes "ankiOptions st = Some (profileCardFormats st)"
    and "0 \<le> i" and "i < int (length (profileCardFormats st))"
  shows "deleteCardFormat i st =
           updateOptions (st\<lparr>profileCardFormats := arraySplice (profileCardFormats st) (nat i) 1 [],
                              cardFormatIndex := i - 1\<rparr>)"
  using assms by (simp add: deleteCardFormat_def)

lemma arraySplice_delete_one:
  "arraySplice xs start (Suc 0) [] = take start xs @ drop (Suc start) xs"
  "start < length xs \<Longrightarrow> length (arraySplice xs start (Suc 0) []) = length xs - 1"
  by (simp_all add: arraySplice_def)

subsection \<open>Deleting formats\<close>

lemma deleteFormat_flow:
  assumes sync: "ankiOptions st = Some (profileCardFormats st)"
    and many: "length (profileCardFormats st) \<noteq> 1"
    and sel: "0 \<le> cardFormatIndex st" "cardFormatIndex st < int (length (profileCardFormats st))"
  shows "deleteFormat st =
           deleteCardFormat (cardFormatIndex st)
             (st\<lparr>cardFormatRemoveName := formatName (profileCardFormats st ! nat (cardFormatIndex st)),
                 cardFormatRemoveModal := \<lparr>modalVisible = False, modalCardFormatIndex = None\<rparr>\<rparr>)"
  using assms
  by (simp add: deleteFormat_def onCardFormatDeleteClick_def openDeleteCardFormatModal_def
      getCardFormat_def onCardFormatRemoveConfirm_def tryGetValidCardFormatIndex_def Let_def)

text \<open>
  What holds of deleting, with the controller's copy of the options being the one of the
  settings store (as it is after every reload). On a list with a single format the click on
  the delete button returns with the state unchanged (list, selection and dialog). On a list
  with two or more formats, \<open>deleteCardFormat\<close> with a valid index removes exactly the
  element at that index: the length decreases by one and stays at least one; the click
  followed by the confirmation deletes the selected format in this way.
\<close>

lemma delete_click_guard_and_removal:
  assumes sync: "ankiOptions st = Some (profileCardFormats st)"
  shows "(length (profileCardFormats st) = 1 \<longrightarrow>
            onCardFormatDeleteClick st = st \<and>
            (\<not> modalVisible (cardFormatRemoveModal st) \<longrightarrow> deleteFormat st = Returned st))
       \<and> (2 \<le> length (profileCardFormats st) \<and> 0 \<le> i \<and> i < int (length (profileCardFormats st)) \<longrightarrow>
            profileCardFormats (stateOf (deleteCardFormat i st)) =
              take (nat i) (profileCardFormats st) @ drop (Suc (nat i)) (profileCardFormats st)
          \<and> length (profileCardFormats (stateOf (deleteCardFormat i st))) =
              length (profileCardFormats st) - 1
          \<and> 1 \<le> length (profileCardFormats (stateOf (deleteCardFormat i st))))
       \<and> (2 \<le> length (profileCardFormats st) \<and> 0 \<le> cardFormatIndex st
            \<and> cardFormatIndex st < int (length (profileCardFormats st)) \<longrightarrow>
            profileCardFormats (stateOf (deleteFormat st)) =
              take (nat (cardFormatIndex st)) (profileCardFormats st)
                @ drop (Suc (nat (cardFormatIndex st))) (profileCardFormats st))"
proof (intro conjI impI)
  assume one: "length (profileCardFormats st) = 1"
  show click: "onCardFormatDeleteClick st = st"
    using sync one by (simp add: onCardFormatDeleteClick_def)
  assume "\<not> modalVisible (cardFormatRemoveModal st)"
  then show "deleteFormat st = Returned st"
    using click by (simp add: deleteFormat_def)
next
  assume h: "2 \<le> length (profileCardFormats st) \<and> 0 \<le> i \<and> i < int (length (profileCardFormats st))"
  then have lt: "nat i < length (profileCardFormats st)" by (simp add: nat_less_iff)
  have eq: "profileCardFormats (stateOf (deleteCardFormat i st)) = arraySplice (profileCardFormats st) (nat i) 1 []"
    using h by (simp add: deleteCardFormat_valid [OF sync] updateOptions_frame)
  show "profileCardFormats (stateOf (deleteCardFormat i st)) =
          take (nat i) (profileCardFormats st) @ drop (Suc (nat i)) (profileCardFormats st)"
    unfolding eq by (simp add: arraySplice_delete_one)
  show "length (profileCardFormats (stateOf (deleteCardFormat i st))) = length (profileCardFormats st) - 1"
    unfolding eq using lt by (simp add: arraySplice_delete_one)
  show "1 \<le> length (profileCardFormats (stateOf (deleteCardFormat i st)))"
    unfolding eq using lt h by (auto simp: arraySplice_delete_one)
next
  assume h: "2 \<le> length (profileCardFormats st) \<and> 0 \<le> cardFormatIndex st
            \<and> cardFormatIndex st < int (length (profileCardFormats st))"
  let ?st1 = "st\<lparr>cardFormatRemoveName := formatName (profileCardFormats st ! nat (cardFormatIndex st)),
                 cardFormatRemoveModal := \<lparr>modalVisible = False, modalCardFormatIndex = None\<rparr>\<rparr>"
  have flow: "deleteFormat st = deleteCardFormat (cardFormatIndex st) ?st1"
    using h by (intro deleteFormat_flow [OF sync]) simp_all
  have "ankiOptions ?st1 = Some (profileCardFormats ?st1)" using sync by simp
  from deleteCardFormat_valid [OF this, of "cardFormatIndex st"] h
  show "profileCardFormats (stateOf (deleteFormat st)) =
              take (nat (cardFormatIndex st)) (profileCardFormats st)
                @ drop (Suc (nat (cardFormatIndex st))) (profileCardFormats st)"
    by (simp add: flow updateOptions_frame arraySplice_delete_one)
qed


lemma delete_click_guard_and_removal_example:
  "onCardFormatDeleteClick (exampleController [exampleFormat ''A''] 0)
     = exampleController [exampleFormat ''A''] 0
   \<and> deleteFormat (exampleController [exampleFormat ''A''] 0)
     = Returned (exampleController [exampleFormat ''A''] 0)
   \<and> profileCardFormats (stateOf (deleteCardFormat 1
         (exampleController [exampleFormat ''A'', exampleFormat ''B'', exampleFormat ''C''] 0)))
     = [exampleFormat ''A'', exampleFormat ''C'']
   \<and> profileCardFormats (stateOf (deleteFormat
         (exampleController [exampleFormat ''A'', exampleFormat ''B'', exampleFormat ''C''] 2)))
     = [exampleFormat ''A'', exampleFormat ''B'']"
  using delete_click_guard_and_removal [of "exampleController [exampleFormat ''A''] 0" 0]
    delete_click_guard_and_removal
      [of "exampleController [exampleFormat ''A'', exampleFormat ''B'', exampleFormat ''C''] 0" 1]
    delete_click_guard_and_removal
      [of "exampleController [exampleFormat ''A'', exampleFormat ''B'', exampleFormat ''C''] 2" 0]
  by (simp add: exampleController_def)

lemma deleteCardFormat_selection:
  assumes sync: "ankiOptions st = Some (profileCardFormats st)"
    and i: "0 \<le> i" "i < int (length (profileCardFormats st))"
  shows "cardFormatIndex (stateOf (deleteCardFormat i st)) = max 0 (i - 1)"
    and "profileCardFormats (stateOf (deleteCardFormat i st))
           = take (nat i) (profileCardFormats st) @ drop (Suc (nat i)) (profileCardFormats st)"
proof -
  have lt: "nat i < length (profileCardFormats st)" using i by (simp add: nat_less_iff)
  show "profileCardFormats (stateOf (deleteCardFormat i st))
           = take (nat i) (profileCardFormats st) @ drop (Suc (nat i)) (profileCardFormats st)"
    using i by (simp add: deleteCardFormat_valid [OF sync] updateOptions_frame arraySplice_delete_one)
  have "length (arraySplice (profileCardFormats st) (nat i) (Suc 0) []) = length (profileCardFormats st) - 1"
    using lt by (simp add: arraySplice_delete_one)
  then show "cardFormatIndex (stateOf (deleteCardFormat i st)) = max 0 (i - 1)"
    using i lt by (simp add: deleteCardFormat_valid [OF sync] updateOptions_frame)
qed

text \<open>
  Claim C1 does not hold of the code on a list with a single format. The guard for the last
  format is in the click handler of the delete button only: \<open>deleteCardFormat\<close>, the method
  that takes the index, and the confirm handler that calls it test nothing but the range of
  the index. Called with index 0 on the single format \<^verbatim>\<open>A\<close>, \<open>deleteCardFormat\<close> empties the
  list instead of leaving it unchanged, and so does the confirmation when the dialog holds
  index 0 (it was opened on a longer list that has shrunk since).
\<close>

theorem deleteCardFormat_empties_single_format_list:
  "profileCardFormats (stateOf (deleteCardFormat 0 (exampleController [exampleFormat ''A''] 0))) = []
   \<and> cardFormatIndex (stateOf (deleteCardFormat 0 (exampleController [exampleFormat ''A''] 0))) = 0
   \<and> profileCardFormats (stateOf (onCardFormatRemoveConfirm
        ((exampleController [exampleFormat ''A''] 0)
           \<lparr>cardFormatRemoveModal := \<lparr>modalVisible = True, modalCardFormatIndex = Some 0\<rparr>\<rparr>))) = []"
proof -
  let ?st = "exampleController [exampleFormat ''A''] 0"
  let ?closed = "?st\<lparr>cardFormatRemoveModal := \<lparr>modalVisible = False, modalCardFormatIndex = None\<rparr>\<rparr>"
  have sync: "ankiOptions ?st = Some (profileCardFormats ?st)"
    and closed: "ankiOptions ?closed = Some (profileCardFormats ?closed)"
    by (simp_all add: exampleController_def)
  have confirm: "onCardFormatRemoveConfirm
      (?st\<lparr>cardFormatRemoveModal := \<lparr>modalVisible = True, modalCardFormatIndex = Some 0\<rparr>\<rparr>)
      = deleteCardFormat 0 ?closed"
    by (simp add: onCardFormatRemoveConfirm_def tryGetValidCardFormatIndex_def Let_def
        exampleController_def)
  show ?thesis
    using deleteCardFormat_selection [OF sync, of 0] deleteCardFormat_selection(2) [OF closed, of 0]
    by (simp add: confirm) (simp add: exampleController_def)
qed

text \<open>
  Claim C2, as stated, fails: with the cursor at 0, deleting entry 2 of three formats moves
  the selection to 1, although the deleted entry is behind the cursor and the selection
  should have stayed.
\<close>

theorem selection_after_delete_counterexample:
  "cardFormatIndex (stateOf (deleteCardFormat 2
      (exampleController [exampleFormat ''A'', exampleFormat ''B'', exampleFormat ''C''] 0)))
   \<noteq> describedSelectionAfterDelete
        (cardFormatIndex
          (exampleController [exampleFormat ''A'', exampleFormat ''B'', exampleFormat ''C''] 0)) 2"
proof -
  let ?st = "exampleController [exampleFormat ''A'', exampleFormat ''B'', exampleFormat ''C''] 0"
  have "ankiOptions ?st = Some (profileCardFormats ?st)" by (simp add: exampleController_def)
  from deleteCardFormat_selection(1) [OF this, of 2]
  have "cardFormatIndex (stateOf (deleteCardFormat 2 ?st)) = 1"
    by (simp add: exampleController_def)
  then show ?thesis
    by (simp add: describedSelectionAfterDelete_def exampleController_def)
qed

text \<open>
  Claim C2, amended. After \<open>deleteCardFormat\<close> with a valid index \<open>i\<close> on a list of two or
  more formats, the reload leaves the selection at \<open>max 0 (i - 1)\<close>, whatever the cursor was,
  and this is a valid position of the new list; deleting the selected format through the
  page moves the selection to \<open>max 0 (sel - 1)\<close>. After \<open>addNewFormat\<close> on a list of fewer
  than five formats, from a selection that does not exceed the length (which every reload
  establishes), the selection is unchanged (negative ones become 0) and valid. Deleting
  index 2 of three formats with the selection at 2 leaves the selection at 1.
\<close>

theorem selection_valid_after_insert_or_delete:
  "(ankiOptions st = Some (profileCardFormats st) \<and> 2 \<le> length (profileCardFormats st)
      \<and> 0 \<le> i \<and> i < int (length (profileCardFormats st)) \<longrightarrow>
        cardFormatIndex (stateOf (deleteCardFormat i st)) = max 0 (i - 1)
      \<and> 0 \<le> cardFormatIndex (stateOf (deleteCardFormat i st))
      \<and> cardFormatIndex (stateOf (deleteCardFormat i st))
           \<le> int (length (profileCardFormats (stateOf (deleteCardFormat i st)))) - 1)
   \<and> (ankiOptions st = Some (profileCardFormats st) \<and> 2 \<le> length (profileCardFormats st)
      \<and> 0 \<le> cardFormatIndex st \<and> cardFormatIndex st < int (length (profileCardFormats st)) \<longrightarrow>
        cardFormatIndex (stateOf (deleteFormat st)) = max 0 (cardFormatIndex st - 1))
   \<and> (length (profileCardFormats st) < 5 \<and> cardFormatIndex st \<le> int (length (profileCardFormats st)) \<longrightarrow>
        cardFormatIndex (stateOf (addNewFormat st)) = max 0 (cardFormatIndex st)
      \<and> 0 \<le> cardFormatIndex (stateOf (addNewFormat st))
      \<and> cardFormatIndex (stateOf (addNewFormat st))
           \<le> int (length (profileCardFormats (stateOf (addNewFormat st)))) - 1)
   \<and> 0 \<le> cardFormatIndex (stateOf (updateOptions st))
   \<and> cardFormatIndex (stateOf (updateOptions st))
        \<le> int (length (profileCardFormats (stateOf (updateOptions st))))
   \<and> (ankiOptions st = Some (profileCardFormats st) \<and> length (profileCardFormats st) = 3
      \<and> cardFormatIndex st = 2 \<longrightarrow>
        cardFormatIndex (stateOf (deleteCardFormat 2 st)) = 1
      \<and> length (profileCardFormats (stateOf (deleteCardFormat 2 st))) = 2)"
proof (intro conjI impI)
  assume h: "ankiOptions st = Some (profileCardFormats st) \<and> 2 \<le> length (profileCardFormats st)
      \<and> 0 \<le> i \<and> i < int (length (profileCardFormats st))"
  then have sync: "ankiOptions st = Some (profileCardFormats st)"
    and two: "2 \<le> length (profileCardFormats st)"
    and i: "0 \<le> i" "i < int (length (profileCardFormats st))" by simp_all
  note sel = deleteCardFormat_selection [OF sync i]
  show "cardFormatIndex (stateOf (deleteCardFormat i st)) = max 0 (i - 1)" by (rule sel)
  show "0 \<le> cardFormatIndex (stateOf (deleteCardFormat i st))" by (simp add: sel)
  show "cardFormatIndex (stateOf (deleteCardFormat i st))
           \<le> int (length (profileCardFormats (stateOf (deleteCardFormat i st)))) - 1"
    using two i by (simp add: sel)
next
  assume h: "ankiOptions st = Some (profileCardFormats st) \<and> 2 \<le> length (profileCardFormats st)
      \<and> 0 \<le> cardFormatIndex st \<and> cardFormatIndex st < int (length (profileCardFormats st))"
  then have sync: "ankiOptions st = Some (profileCardFormats st)"
    and two: "length (profileCardFormats st) \<noteq> 1"
    and i: "0 \<le> cardFormatIndex st" "cardFormatIndex st < int (length (profileCardFormats st))"
    by simp_all
  let ?st1 = "st\<lparr>cardFormatRemoveName := formatName (profileCardFormats st ! nat (cardFormatIndex st)),
                 cardFormatRemoveModal := \<lparr>modalVisible = False, modalCardFormatIndex = None\<rparr>\<rparr>"
  have "ankiOptions ?st1 = Some (profileCardFormats ?st1)" using sync by simp
  from deleteCardFormat_selection(1) [OF this, of "cardFormatIndex st"] i
  show "cardFormatIndex (stateOf (deleteFormat st)) = max 0 (cardFormatIndex st - 1)"
    by (simp add: deleteFormat_flow [OF sync two i])
next
  assume h: "length (profileCardFormats st) < 5 \<and> cardFormatIndex st \<le> int (length (profileCardFormats st))"
  then have eq: "addNewFormat st = updateOptions
          (st\<lparr>profileCardFormats := arraySplice (profileCardFormats st) (length (profileCardFormats st)) 0
              [newCardFormat (length (profileCardFormats st))]\<rparr>)"
    by (simp add: addNewFormat_def addNewFormatIndex_def addNewFormatResume_def Let_def)
  have len: "length (arraySplice (profileCardFormats st) (length (profileCardFormats st)) 0
              [newCardFormat (length (profileCardFormats st))]) = Suc (length (profileCardFormats st))"
    by (simp add: arraySplice_def)
  show sel: "cardFormatIndex (stateOf (addNewFormat st)) = max 0 (cardFormatIndex st)"
    using h by (simp add: eq updateOptions_frame len)
  show "0 \<le> cardFormatIndex (stateOf (addNewFormat st))" by (simp add: sel)
  show "cardFormatIndex (stateOf (addNewFormat st))
           \<le> int (length (profileCardFormats (stateOf (addNewFormat st)))) - 1"
    unfolding sel using h by (simp add: eq updateOptions_frame len)
next
  show "0 \<le> cardFormatIndex (stateOf (updateOptions st))"
    by (simp add: updateOptions_frame)
  show "cardFormatIndex (stateOf (updateOptions st))
        \<le> int (length (profileCardFormats (stateOf (updateOptions st))))"
    by (simp add: updateOptions_frame)
next
  assume h: "ankiOptions st = Some (profileCardFormats st) \<and> length (profileCardFormats st) = 3
      \<and> cardFormatIndex st = 2"
  then have sync: "ankiOptions st = Some (profileCardFormats st)"
    and three: "length (profileCardFormats st) = 3" by simp_all
  from deleteCardFormat_selection [OF sync, of 2] three
  show "cardFormatIndex (stateOf (deleteCardFormat 2 st)) = 1"
    and "length (profileCardFormats (stateOf (deleteCardFormat 2 st))) = 2"
    by simp_all
qed

theorem selection_valid_after_insert_or_delete_witness:
  "cardFormatIndex (stateOf (deleteCardFormat 2
      (exampleController [exampleFormat ''A'', exampleFormat ''B'', exampleFormat ''C''] 2))) = 1
   \<and> profileCardFormats (stateOf (deleteCardFormat 2
      (exampleController [exampleFormat ''A'', exampleFormat ''B'', exampleFormat ''C''] 2)))
       = [exampleFormat ''A'', exampleFormat ''B'']
   \<and> cardFormatIndex (stateOf (deleteFormat
      (exampleController [exampleFormat ''A'', exampleFormat ''B'', exampleFormat ''C''] 2))) = 1
   \<and> cardFormatIndex (stateOf (addNewFormat
      (exampleController [exampleFormat ''A'', exampleFormat ''B'', exampleFormat ''C''] 2))) = 2
   \<and> length (profileCardFormats (stateOf (addNewFormat
      (exampleController [exampleFormat ''A'', exampleFormat ''B'', exampleFormat ''C''] 2)))) = 4"
  using selection_valid_after_insert_or_delete
      [of "exampleController [exampleFormat ''A'', exampleFormat ''B'', exampleFormat ''C''] 2" 2]
    deleteCardFormat_selection(2)
      [of "exampleController [exampleFormat ''A'', exampleFormat ''B'', exampleFormat ''C''] 2" 2]
  by (simp add: exampleController_def addNewFormat_def addNewFormatIndex_def addNewFormatResume_def updateOptions_frame arraySplice_def)

subsection \<open>Adding formats\<close>

lemma addNewFormat_below_five:
  assumes "length (profileCardFormats st) < 5"
  shows "profileCardFormats (stateOf (addNewFormat st))
           = profileCardFormats st @ [newCardFormat (length (profileCardFormats st))]"
  using assms by (simp add: addNewFormat_def addNewFormatIndex_def addNewFormatResume_def Let_def updateOptions_frame arraySplice_def)

lemma addNewFormat_at_five:
  assumes "5 \<le> length (profileCardFormats st)"
  shows "addNewFormat st =
           Returned (st\<lparr>cardFormatMaximumModal := map_option (\<lambda>_. True) (cardFormatMaximumModal st)\<rparr>)"
  using assms by (simp add: addNewFormat_def addNewFormatIndex_def addNewFormatResume_def Let_def)

lemma addNewFormat_bounded:
  assumes "length (profileCardFormats st) \<le> 5"
  shows "length (profileCardFormats (stateOf (addNewFormat st))) \<le> 5"
proof (cases "length (profileCardFormats st) < 5")
  case True
  then show ?thesis by (simp add: addNewFormat_below_five)
next
  case False
  with assms have "5 \<le> length (profileCardFormats st)" by simp
  then show ?thesis using assms by (simp add: addNewFormat_at_five)
qed

lemma addNewFormat_repeated_bounded:
  assumes "length (profileCardFormats st) \<le> 5"
  shows "length (profileCardFormats (((\<lambda>s. stateOf (addNewFormat s)) ^^ n) st)) \<le> 5"
  using assms by (induction n) (simp_all add: addNewFormat_bounded)

text \<open>
  A call of \<open>addNewFormat\<close> that no other call overlaps appends one default-initialised
  format (\<open>newCardFormat\<close>) at the end of a list of fewer than five formats. On a list of five
  (or more) it returns with the list unchanged, and the only change to the state is that the
  maximum-reached dialog, when the page has one, is made visible. Calls that run one after
  the other never let a list of at most five formats grow beyond five.
\<close>

lemma addNewFormat_alone:
  "(length (profileCardFormats st) < 5 \<longrightarrow>
      profileCardFormats (stateOf (addNewFormat st))
        = profileCardFormats st @ [newCardFormat (length (profileCardFormats st))]
    \<and> length (profileCardFormats (stateOf (addNewFormat st))) = length (profileCardFormats st) + 1)
   \<and> (length (profileCardFormats st) = 5 \<longrightarrow>
      addNewFormat st =
        Returned (st\<lparr>cardFormatMaximumModal := map_option (\<lambda>_. True) (cardFormatMaximumModal st)\<rparr>)
    \<and> profileCardFormats (stateOf (addNewFormat st)) = profileCardFormats st
    \<and> (cardFormatMaximumModal st \<noteq> None \<longrightarrow>
          cardFormatMaximumModal (stateOf (addNewFormat st)) = Some True))
   \<and> (length (profileCardFormats st) \<le> 5 \<longrightarrow>
      length (profileCardFormats (stateOf (addNewFormat st))) \<le> 5
    \<and> length (profileCardFormats (((\<lambda>s. stateOf (addNewFormat s)) ^^ n) st)) \<le> 5)"
proof (intro conjI impI)
  assume "length (profileCardFormats st) < 5"
  then show "profileCardFormats (stateOf (addNewFormat st))
        = profileCardFormats st @ [newCardFormat (length (profileCardFormats st))]"
    and "length (profileCardFormats (stateOf (addNewFormat st))) = length (profileCardFormats st) + 1"
    by (simp_all add: addNewFormat_below_five)
next
  assume five: "length (profileCardFormats st) = 5"
  then show eq: "addNewFormat st =
        Returned (st\<lparr>cardFormatMaximumModal := map_option (\<lambda>_. True) (cardFormatMaximumModal st)\<rparr>)"
    by (simp add: addNewFormat_at_five)
  show "profileCardFormats (stateOf (addNewFormat st)) = profileCardFormats st"
    by (simp add: eq)
  assume "cardFormatMaximumModal st \<noteq> None"
  then show "cardFormatMaximumModal (stateOf (addNewFormat st)) = Some True"
    by (auto simp: eq)
next
  assume "length (profileCardFormats st) \<le> 5"
  then show "length (profileCardFormats (stateOf (addNewFormat st))) \<le> 5"
    and "length (profileCardFormats (((\<lambda>s. stateOf (addNewFormat s)) ^^ n) st)) \<le> 5"
    by (simp_all add: addNewFormat_bounded addNewFormat_repeated_bounded)
qed

lemma addNewFormat_alone_example:
  "map formatName (profileCardFormats (stateOf (addNewFormat
      (exampleController [exampleFormat ''A'', exampleFormat ''B''] 0)))) = [''A'', ''B'', ''Format 3'']
   \<and> newCardFormat 2 = \<lparr>formatName = ''Format 3'', formatType = TermEntry, formatDeck = [],
        formatModel = [], formatFields = [], formatIcon = ''big-circle''\<rparr>
   \<and> profileCardFormats (stateOf (addNewFormat (exampleController
        [exampleFormat ''A'', exampleFormat ''B'', exampleFormat ''C'', exampleFormat ''D'',
         exampleFormat ''E''] 0)))
       = [exampleFormat ''A'', exampleFormat ''B'', exampleFormat ''C'', exampleFormat ''D'',
          exampleFormat ''E'']
   \<and> cardFormatMaximumModal (stateOf (addNewFormat (exampleController
        [exampleFormat ''A'', exampleFormat ''B'', exampleFormat ''C'', exampleFormat ''D'',
         exampleFormat ''E''] 0))) = Some True
   \<and> length (profileCardFormats (((\<lambda>s. stateOf (addNewFormat s)) ^^ 6)
        (exampleController [exampleFormat ''A'', exampleFormat ''B''] 0))) \<le> 5"
  using addNewFormat_alone
      [of "exampleController [exampleFormat ''A'', exampleFormat ''B''] 0" 6]
    addNewFormat_alone
      [of "exampleController [exampleFormat ''A'', exampleFormat ''B'', exampleFormat ''C'',
            exampleFormat ''D'', exampleFormat ''E''] 0" 0]
  by (simp add: exampleController_def exampleFormat_def newCardFormat_def decimal.simps digitChar_def)

text \<open>
  Claim C3 does not hold of the code when two calls overlap. The test against five is made
  on the length a call read before it was suspended, and nothing keeps a second call from
  starting meanwhile. Two clicks on the new-format button of a page with four formats, the
  second before the first call has resumed, both read the length 4: neither is refused, no
  notice is shown, both splice at index 4, and the list has six formats, the second new
  format standing before the first and not at the end.
\<close>

theorem addNewFormat_overlapping_calls_exceed_five:
  "addNewFormatIndex exampleFourFormats = 4
   \<and> map formatName (profileCardFormats (stateOf
        (addNewFormatResume (addNewFormatIndex exampleFourFormats)
          (stateOf (addNewFormatResume (addNewFormatIndex exampleFourFormats) exampleFourFormats)))))
     = [''A'', ''B'', ''C'', ''D'', ''Format 5'', ''Format 5'']
   \<and> length (profileCardFormats (stateOf
        (addNewFormatResume (addNewFormatIndex exampleFourFormats)
          (stateOf (addNewFormatResume (addNewFormatIndex exampleFourFormats) exampleFourFormats)))))
     = 6
   \<and> cardFormatMaximumModal (stateOf
        (addNewFormatResume (addNewFormatIndex exampleFourFormats)
          (stateOf (addNewFormatResume (addNewFormatIndex exampleFourFormats) exampleFourFormats))))
     = Some False"
proof -
  have index: "addNewFormatIndex exampleFourFormats = 4"
    by (simp add: addNewFormatIndex_def exampleFourFormats_def exampleController_def)
  have first: "profileCardFormats (stateOf (addNewFormatResume 4 exampleFourFormats))
      = [exampleFormat ''A'', exampleFormat ''B'', exampleFormat ''C'', exampleFormat ''D'',
         newCardFormat 4]"
    and modal: "cardFormatMaximumModal (stateOf (addNewFormatResume 4 exampleFourFormats)) = Some False"
    by (simp_all add: addNewFormatResume_def updateOptions_frame arraySplice_def
        exampleFourFormats_def exampleController_def)
  have second: "profileCardFormats (stateOf (addNewFormatResume 4
        (stateOf (addNewFormatResume 4 exampleFourFormats))))
      = [exampleFormat ''A'', exampleFormat ''B'', exampleFormat ''C'', exampleFormat ''D'',
         newCardFormat 4, newCardFormat 4]"
    and shown: "cardFormatMaximumModal (stateOf (addNewFormatResume 4
        (stateOf (addNewFormatResume 4 exampleFourFormats)))) = Some False"
    by (simp_all add: addNewFormatResume_def [of 4 "stateOf (addNewFormatResume 4 exampleFourFormats)"]
        updateOptions_frame arraySplice_def first modal)
  show ?thesis
    by (simp add: index second shown exampleFormat_def newCardFormat_def decimal.simps digitChar_def)
qed

subsection \<open>Selecting a format without its panel\<close>

text \<open>
  Claim C4, as stated, fails: without the panel element the call raises an error.
\<close>

theorem setCardFormatIndex_absent_panel_counterexample:
  "thrownBy (setCardFormatIndex 1 None
      ((exampleController [exampleFormat ''A'', exampleFormat ''B''] 0)\<lparr>ankiCardPrimary := None\<rparr>))
   = Some (Error ''Anki card primary element not found'')"
  by (simp add: setCardFormatIndex_def exampleController_def)

text \<open>
  Claim C4, amended. \<open>setCardFormatIndex\<close> always sets the active format index. When the
  panel element is absent it then throws the error \<^verbatim>\<open>Anki card primary element not found\<close>;
  the state it leaves differs from the one before only in the index.
\<close>

theorem setCardFormatIndex_absent_panel_throws:
  "cardFormatIndex (stateOf (setCardFormatIndex i ankiCardMenu st)) = i
   \<and> (ankiCardPrimary st = None \<longrightarrow>
        setCardFormatIndex i ankiCardMenu st
          = Threw (Error ''Anki card primary element not found'') (st\<lparr>cardFormatIndex := i\<rparr>))"
  by (simp add: setCardFormatIndex_frame) (simp add: setCardFormatIndex_def)

theorem setCardFormatIndex_absent_panel_throws_witness:
  "setCardFormatIndex 1 None
      ((exampleController [exampleFormat ''A'', exampleFormat ''B''] 0)\<lparr>ankiCardPrimary := None\<rparr>)
   = Threw (Error ''Anki card primary element not found'')
       ((exampleController [exampleFormat ''A'', exampleFormat ''B''] 0)
          \<lparr>ankiCardPrimary := None, cardFormatIndex := 1\<rparr>)
   \<and> cardFormatIndex (stateOf (setCardFormatIndex 1 (Some ''anki-card-term-field-menu'')
        (exampleController [exampleFormat ''A'', exampleFormat ''B''] 0))) = 1"
  using setCardFormatIndex_absent_panel_throws
      [of 1 None "(exampleController [exampleFormat ''A'', exampleFormat ''B''] 0)\<lparr>ankiCardPrimary := None\<rparr>"]
    setCardFormatIndex_absent_panel_throws
      [of 1 "Some ''anki-card-term-field-menu''" "exampleController [exampleFormat ''A'', exampleFormat ''B''] 0"]
  by (simp add: exampleController_def)

subsection \<open>Errors of the note API\<close>

lemma showAnkiError_text:
  "ankiErrorMessageText (showAnkiError e st) =
     (let s = (if errorMessage e = [] then errorToString e else errorMessage e)
      in if endsWithTerminalPunctuation s then s else s @ ''.'')"
  by (simp add: showAnkiError_def Let_def)

lemma endsWithTerminalPunctuation_shown:
  "endsWithTerminalPunctuation (ankiErrorMessageText (showAnkiError e st))"
  by (simp add: showAnkiError_text Let_def) (simp add: endsWithTerminalPunctuation_def)

text \<open>
  Claim C9. When the call of the note API throws, the fetch helper returns the empty list
  of names paired with the error; \<open>getAnkiData\<close> returns its data with the empty list and
  shows the error, a deck error before a model error, in the status node. The text shown
  is the error's message (the printed error when the message is empty), with a period
  appended unless it already ends in one of \<^verbatim>\<open>.\<close>, \<^verbatim>\<open>!\<close> and \<^verbatim>\<open>?\<close>; it always ends in
  terminal punctuation.
\<close>

theorem remote_errors_caught_and_shown:
  "getDeckNames toError sortStringArray (Inl x) = ([], Some (toError x))
   \<and> getModelNames toError sortStringArray (Inl x) = ([], Some (toError x))
   \<and> deckNames (fst (getAnkiData toError sortStringArray (Inl x) modelAnswer st)) = []
   \<and> modelNames (fst (getAnkiData toError sortStringArray deckAnswer (Inl x) st)) = []
   \<and> ankiError (snd (getAnkiData toError sortStringArray (Inl x) modelAnswer st)) = Some (toError x)
   \<and> ankiError (snd (getAnkiData toError sortStringArray (Inr names) (Inl x) st)) = Some (toError x)
   \<and> ankiErrorMessageText (snd (getAnkiData toError sortStringArray (Inl x) modelAnswer st))
       = ankiErrorMessageText (showAnkiError (toError x) st)
   \<and> ankiErrorMessageText (snd (getAnkiData toError sortStringArray (Inr names) (Inl x) st))
       = ankiErrorMessageText (showAnkiError (toError x) st)
   \<and> endsWithTerminalPunctuation (ankiErrorMessageText (showAnkiError e st))
   \<and> ankiErrorMessageText (showAnkiError e st) =
       (if errorMessage e = [] then
          (if endsWithTerminalPunctuation (errorToString e) then errorToString e
           else errorToString e @ ''.'')
        else if endsWithTerminalPunctuation (errorMessage e) then errorMessage e
        else errorMessage e @ ''.'')"
proof (intro conjI)
  show "endsWithTerminalPunctuation (ankiErrorMessageText (showAnkiError e st))"
    by (rule endsWithTerminalPunctuation_shown)
qed (simp_all add: getDeckNames_def getModelNames_def getAnkiData_def Let_def showAnkiError_text
      setAnkiStatusChanging_def showAnkiError_def split: sum.splits prod.splits)

theorem remote_errors_caught_and_shown_witness:
  "ankiErrorMessageText (snd (getAnkiData (\<lambda>m. \<lparr>errorName = ''TypeError'', errorMessage = m\<rparr>) id
       (Inl ''Failed to fetch'') (Inr [''Basic'']) (exampleController [] 0))) = ''Failed to fetch.''
   \<and> fst (getAnkiData (\<lambda>m. \<lparr>errorName = ''TypeError'', errorMessage = m\<rparr>) id
       (Inl ''Failed to fetch'') (Inr [''Basic'']) (exampleController [] 0))
       = \<lparr>deckNames = [], modelNames = [''Basic'']\<rparr>
   \<and> ankiErrorMessageText (showAnkiError \<lparr>errorName = ''Error'', errorMessage = ''Invalid response!''\<rparr>
        (exampleController [] 0)) = ''Invalid response!''"
  using remote_errors_caught_and_shown
      [of "\<lambda>m. \<lparr>errorName = ''TypeError'', errorMessage = m\<rparr>" id "''Failed to fetch''"
          "Inr [''Basic'']" "exampleController [] 0" "Inr [''Basic'']" "[]"
          "\<lparr>errorName = ''Error'', errorMessage = ''Invalid response!''\<rparr>"]
  by (simp add: endsWithTerminalPunctuation_def getAnkiData_def getDeckNames_def getModelNames_def
      showAnkiError_def setAnkiStatusChanging_def Let_def)

section \<open>Properties of objects\<close>

lemma insertIndexKey_keys:
  "fst ` set (insertIndexKey n k v obj) = insert k (fst ` set obj)"
  by (induction obj) (auto split: option.splits)

lemma omitProperty_absent:
  "k \<notin> fst ` set obj \<Longrightarrow> filter (\<lambda>p. fst p \<noteq> k) obj = obj"
  by (induction obj) auto

lemma insertIndexKey_omit:
  "k \<notin> fst ` set obj \<Longrightarrow> filter (\<lambda>p. fst p \<noteq> k) (insertIndexKey n k v obj) = obj"
  by (induction obj) (auto simp: omitProperty_absent split: option.splits)

lemma insertIndexKey_map_of:
  "k \<notin> fst ` set obj \<Longrightarrow> map_of (insertIndexKey n k v obj) k = Some v"
  by (induction obj) (auto split: option.splits)

lemma insertIndexKey_length:
  "length (insertIndexKey n k v obj) = Suc (length obj)"
  by (induction obj) (auto split: option.splits)

lemma insertIndexKey_distinct:
  "k \<notin> fst ` set obj \<Longrightarrow> distinct (map fst obj)
     \<Longrightarrow> distinct (map fst (insertIndexKey n k v obj))"
proof (induction obj)
  case Nil
  then show ?case by simp
next
  case (Cons p obj)
  then have "fst p \<notin> fst ` set (insertIndexKey n k v obj)"
    by (auto simp: insertIndexKey_keys)
  with Cons show ?case
    by (auto split: option.splits)
qed

lemma setProperty_fresh_omit:
  "\<not> hasOwnProperty obj k \<Longrightarrow> omitProperty (setProperty obj k v) k = obj"
  by (cases "arrayIndex k")
    (simp_all add: setProperty_def hasOwnProperty_def omitProperty_def objectKeys_def
      insertIndexKey_omit omitProperty_absent)

lemma setProperty_fresh_get:
  "\<not> hasOwnProperty obj k \<Longrightarrow> getProperty (setProperty obj k v) k = v"
proof -
  assume "\<not> hasOwnProperty obj k"
  then have fresh: "k \<notin> fst ` set obj"
    by (simp add: hasOwnProperty_def objectKeys_def)
  then have none: "map_of obj k = None"
    by (simp add: map_of_eq_None_iff)
  show ?thesis
    using fresh none
    by (cases "arrayIndex k")
      (simp_all add: setProperty_def hasOwnProperty_def getProperty_def objectKeys_def
        insertIndexKey_map_of map_add_def)
qed

lemma setProperty_fresh_keys:
  "\<not> hasOwnProperty obj k
     \<Longrightarrow> set (objectKeys (setProperty obj k v)) = insert k (set (objectKeys obj))"
  by (cases "arrayIndex k")
    (simp_all add: setProperty_def hasOwnProperty_def objectKeys_def insertIndexKey_keys)

lemma setProperty_fresh_length:
  "\<not> hasOwnProperty obj k \<Longrightarrow> length (setProperty obj k v) = Suc (length obj)"
  by (cases "arrayIndex k") (simp_all add: setProperty_def insertIndexKey_length)

lemma setProperty_fresh_distinct:
  "\<not> hasOwnProperty obj k \<Longrightarrow> distinct (objectKeys obj)
     \<Longrightarrow> distinct (objectKeys (setProperty obj k v))"
  by (cases "arrayIndex k")
    (simp_all add: setProperty_def hasOwnProperty_def objectKeys_def insertIndexKey_distinct)

lemma setProperty_fresh_plain:
  "\<not> hasOwnProperty obj k \<Longrightarrow> arrayIndex k = None \<Longrightarrow> setProperty obj k v = obj @ [(k, v)]"
  by (simp add: setProperty_def)

lemma omitProperty_has:
  "hasOwnProperty (omitProperty obj k) k' \<longleftrightarrow> hasOwnProperty obj k' \<and> k' \<noteq> k"
  by (auto simp: hasOwnProperty_def omitProperty_def objectKeys_def)

lemma omitProperty_distinct:
  "distinct (objectKeys obj) \<Longrightarrow> distinct (objectKeys (omitProperty obj k))"
  by (simp add: objectKeys_def omitProperty_def distinct_map_filter)


subsection \<open>Decimal numerals and array indices\<close>

lemma digitValue_digitChar:
  assumes "d < 10"
  shows "digitValue (digitChar d) = d" and "digitChar d \<in> set ''0123456789''"
proof -
  from assms have "d = 0 \<or> d = 1 \<or> d = 2 \<or> d = 3 \<or> d = 4 \<or> d = 5 \<or> d = 6 \<or> d = 7
      \<or> d = 8 \<or> d = 9"
    by arith
  then show "digitValue (digitChar d) = d" and "digitChar d \<in> set ''0123456789''"
    by (elim disjE; simp add: digitValue_def digitChar_def)+
qed

lemma parseDecimal_snoc:
  "parseDecimal (s @ [c]) = 10 * parseDecimal s + digitValue c"
  by (simp add: parseDecimal_def)

lemma parseDecimal_decimal:
  "parseDecimal (decimal n) = n"
proof (induction n rule: decimal.induct)
  case (1 n)
  show ?case
  proof (cases "n < 10")
    case True
    then show ?thesis
      by (simp add: decimal.simps [of n] parseDecimal_def digitValue_digitChar)
  next
    case False
    have "digitValue (digitChar (n mod 10)) = n mod 10"
      by (simp add: digitValue_digitChar)
    with False 1 show ?thesis
      by (simp add: decimal.simps [of n] parseDecimal_snoc)
  qed
qed

lemma decimal_inject:
  "decimal m = decimal n \<Longrightarrow> m = n"
  by (metis parseDecimal_decimal)

lemma decimal_digits:
  "set (decimal n) \<subseteq> set ''0123456789''"
proof (induction n rule: decimal.induct)
  case (1 n)
  show ?case
  proof (cases "n < 10")
    case True
    then show ?thesis
      using digitValue_digitChar(2) [of n] by (simp add: decimal.simps [of n])
  next
    case False
    have "digitChar (n mod 10) \<in> set ''0123456789''"
      by (rule digitValue_digitChar(2)) simp
    with False 1 show ?thesis
      by (simp add: decimal.simps [of n])
  qed
qed

lemma arrayIndex_Some:
  "arrayIndex k = Some n \<Longrightarrow> k = decimal n"
  by (simp add: arrayIndex_def Let_def split: if_splits)

lemma arrayIndex_inject:
  "arrayIndex k = Some n \<Longrightarrow> arrayIndex k' = Some n \<Longrightarrow> k = k'"
  using arrayIndex_Some [of k n] arrayIndex_Some [of k' n] by simp

lemma arrayIndex_not_digit:
  assumes "c \<in> set k" and "c \<notin> set ''0123456789''"
  shows "arrayIndex k = None"
proof (cases "arrayIndex k")
  case None
  then show ?thesis .
next
  case (Some n)
  then have "k = decimal n" by (rule arrayIndex_Some)
  with assms decimal_digits [of n] show ?thesis by blast
qed

lemma arrayIndex_Field:
  "arrayIndex (''Field'' @ s) = None"
  by (rule arrayIndex_not_digit [of "CHR ''F''"]) simp_all

subsection \<open>The representation invariant is kept\<close>

lemma keyPrecedes_plain:
  "arrayIndex k = None \<Longrightarrow> keyPrecedes k' k"
  by (simp add: keyPrecedes_def)

lemma insertIndexKey_sorted:
  assumes "arrayIndex k = Some n" and "k \<notin> fst ` set obj"
    and "sorted_wrt keyPrecedes (map fst obj)"
  shows "sorted_wrt keyPrecedes (map fst (insertIndexKey n k v obj))"
  using assms(2,3)
proof (induction obj)
  case Nil
  then show ?case by simp
next
  case (Cons p obj)
  show ?case
  proof (cases "arrayIndex (fst p)")
    case None
    then have "keyPrecedes k (fst p)" by (simp add: keyPrecedes_def)
    moreover have "keyPrecedes k x" if "x \<in> fst ` set obj" for x
    proof -
      from that Cons.prems have "keyPrecedes (fst p) x" by auto
      with None show ?thesis by (simp add: keyPrecedes_def split: option.splits)
    qed
    ultimately show ?thesis using None Cons.prems by auto
  next
    case (Some m)
    show ?thesis
    proof (cases "m < n")
      case True
      have "keyPrecedes (fst p) x" if "x \<in> fst ` set (insertIndexKey n k v obj)" for x
        using that Cons.prems Some True assms(1)
        by (auto simp: insertIndexKey_keys keyPrecedes_def)
      moreover have "sorted_wrt keyPrecedes (map fst (insertIndexKey n k v obj))"
        using Cons by auto
      ultimately show ?thesis using Some True by auto
    next
      case False
      from Cons.prems have "k \<noteq> fst p" by auto
      with Some assms(1) have "m \<noteq> n" using arrayIndex_inject by blast
      with False have lt: "n < m" by simp
      then have "keyPrecedes k (fst p)"
        using Some assms(1) by (simp add: keyPrecedes_def)
      moreover have "keyPrecedes k x" if "x \<in> fst ` set obj" for x
      proof -
        from that Cons.prems have "keyPrecedes (fst p) x" by auto
        with Some lt assms(1) show ?thesis
          by (auto simp: keyPrecedes_def split: option.splits)
      qed
      ultimately show ?thesis using Some False Cons.prems by auto
    qed
  qed
qed

lemma wfObject_setProperty:
  assumes "wfObject obj" and "\<not> hasOwnProperty obj k"
  shows "wfObject (setProperty obj k v)"
proof -
  from assms have fresh: "k \<notin> fst ` set obj" and dist: "distinct (map fst obj)"
    and sorted: "sorted_wrt keyPrecedes (map fst obj)"
    by (simp_all add: wfObject_def hasOwnProperty_def objectKeys_def)
  show ?thesis
  proof (cases "arrayIndex k")
    case None
    then show ?thesis
      using fresh dist sorted assms(2)
      by (simp add: wfObject_def setProperty_def objectKeys_def sorted_wrt_append keyPrecedes_plain)
  next
    case (Some n)
    then show ?thesis
      using fresh dist sorted assms(2)
      by (simp add: wfObject_def setProperty_def objectKeys_def insertIndexKey_distinct
          insertIndexKey_sorted)
  qed
qed

lemma wfObject_omitProperty:
  "wfObject obj \<Longrightarrow> wfObject (omitProperty obj k)"
  by (simp add: wfObject_def omitProperty_def objectKeys_def distinct_map_filter
      sorted_wrt_map sorted_wrt_filter)

section \<open>Properties of the field-set editor\<close>

subsection \<open>Rendering\<close>

lemma setupFieldRows_defined:
  "allDefined rows \<Longrightarrow>
     \<exists>entries. setupFieldRows env index rows acc = Returned (acc @ entries)
       \<and> map entryFieldName entries = map fst rows"
proof (induction rows arbitrary: index acc)
  case Nil
  then show ?case by simp
next
  case (Cons p rows)
  obtain fieldName v where p: "p = (fieldName, v)" by (cases p)
  with Cons.prems obtain field where v: "v = Some field" and rest: "allDefined rows"
    by (auto simp: allDefined_def)
  from Cons.IH [OF rest, of "Suc index" "acc @ [createFieldEntry env index fieldName field]"]
  obtain entries where
    "setupFieldRows env (Suc index) rows (acc @ [createFieldEntry env index fieldName field])
       = Returned ((acc @ [createFieldEntry env index fieldName field]) @ entries)"
    and "map entryFieldName entries = map fst rows"
    by blast
  then show ?case
    by (intro exI [of _ "createFieldEntry env index fieldName field # entries"])
      (simp add: p v createFieldEntry_def)
qed

lemma setupFields_frame:
  "cardFields (stateOf (setupFields env st)) = cardFields st"
  "profileFields (stateOf (setupFields env st)) = profileFields st"
  by (simp_all add: setupFields_def split: outcome.splits)

lemma setupFields_defined:
  assumes "allDefined (cardFields st)"
  shows "\<exists>entries. setupFields env st = Returned (st\<lparr>fieldEntries := entries\<rparr>)
           \<and> map entryFieldName entries = objectKeys (cardFields st)"
  using setupFieldRows_defined [OF assms [unfolded objectEntries_def [symmetric]], of env 0 "[]"]
  by (auto simp: setupFields_def objectKeys_def objectEntries_def)

subsection \<open>Renaming\<close>

lemma onFieldNameBlur_unfold:
  assumes "index < length (fieldEntries st)"
    and "trim nodeValue \<noteq> entryFieldName (fieldEntries st ! index)"
    and "trim nodeValue \<noteq> []"
    and "\<not> hasOwnProperty (cardFields st) (trim nodeValue)"
  shows "onFieldNameBlur env index nodeValue st =
           withNodeValue nodeValue (setupFields env
             (st\<lparr>profileFields :=
                    setProperty (omitProperty (cardFields st) (entryFieldName (fieldEntries st ! index)))
                      (trim nodeValue)
                      (getProperty (cardFields st) (entryFieldName (fieldEntries st ! index))),
                 cardFields :=
                    setProperty (omitProperty (cardFields st) (entryFieldName (fieldEntries st ! index)))
                      (trim nodeValue)
                      (getProperty (cardFields st) (entryFieldName (fieldEntries st ! index)))\<rparr>))"
  using assms by (simp add: onFieldNameBlur_def Let_def)

lemma withNodeValue_state:
  "snd (stateOf (withNodeValue v out)) = stateOf out"
  "fst (stateOf (withNodeValue v out)) = v"
  by (cases out; simp)+

lemma renamed_fields:
  assumes "index < length (fieldEntries st)"
    and "trim nodeValue \<noteq> entryFieldName (fieldEntries st ! index)"
    and "trim nodeValue \<noteq> []"
    and "\<not> hasOwnProperty (cardFields st) (trim nodeValue)"
  shows "cardFields (snd (stateOf (onFieldNameBlur env index nodeValue st))) =
           setProperty (omitProperty (cardFields st) (entryFieldName (fieldEntries st ! index)))
             (trim nodeValue)
             (getProperty (cardFields st) (entryFieldName (fieldEntries st ! index)))"
    and "profileFields (snd (stateOf (onFieldNameBlur env index nodeValue st))) =
           cardFields (snd (stateOf (onFieldNameBlur env index nodeValue st)))"
  by (simp_all add: onFieldNameBlur_unfold [OF assms] withNodeValue_state setupFields_frame)

text \<open>
  Claim C5. \<open>onFieldNameBlur\<close> works on the trimmed text of the name input. For a row of the
  editor: when the trimmed name is the row's current name, nothing changes; when it is
  empty or already a key of the field map, the state (and with it the map) is unchanged and
  the input shows the old name again; otherwise the map is re-keyed: the new name holds the
  value and overwrite policy the old name had, the old name is gone, the fields stored in
  the profile are the new map, and leaving the renamed field out gives the other fields in
  their old order with their old contents.
\<close>

theorem onFieldNameBlur_renames:
  "index < length (fieldEntries st) \<longrightarrow>
     (let oldName = entryFieldName (fieldEntries st ! index);
          newName = trim nodeValue;
          result = onFieldNameBlur env index nodeValue st;
          newFields = cardFields (snd (stateOf result))
      in (newName = oldName \<longrightarrow> result = Returned (nodeValue, st))
       \<and> (newName \<noteq> oldName \<and> (newName = [] \<or> hasOwnProperty (cardFields st) newName) \<longrightarrow>
            result = Returned (oldName, st))
       \<and> (newName \<noteq> oldName \<and> newName \<noteq> [] \<and> \<not> hasOwnProperty (cardFields st) newName \<longrightarrow>
            getProperty newFields newName = getProperty (cardFields st) oldName
          \<and> hasOwnProperty newFields newName
          \<and> \<not> hasOwnProperty newFields oldName
          \<and> omitProperty newFields newName = omitProperty (cardFields st) oldName
          \<and> profileFields (snd (stateOf result)) = newFields))"
proof (intro impI)
  assume row: "index < length (fieldEntries st)"
  let ?old = "entryFieldName (fieldEntries st ! index)"
  let ?new = "trim nodeValue"
  let ?result = "onFieldNameBlur env index nodeValue st"
  let ?rest = "omitProperty (cardFields st) ?old"
  have same: "?result = Returned (nodeValue, st)" if "?new = ?old"
    using row that by (simp add: onFieldNameBlur_def Let_def)
  have revert: "?result = Returned (?old, st)"
    if "?new \<noteq> ?old \<and> (?new = [] \<or> hasOwnProperty (cardFields st) ?new)"
    using row that by (auto simp: onFieldNameBlur_def Let_def)
  have rename: "getProperty (cardFields (snd (stateOf ?result))) ?new = getProperty (cardFields st) ?old
      \<and> hasOwnProperty (cardFields (snd (stateOf ?result))) ?new
      \<and> \<not> hasOwnProperty (cardFields (snd (stateOf ?result))) ?old
      \<and> omitProperty (cardFields (snd (stateOf ?result))) ?new = ?rest
      \<and> profileFields (snd (stateOf ?result)) = cardFields (snd (stateOf ?result))"
    if h: "?new \<noteq> ?old \<and> ?new \<noteq> [] \<and> \<not> hasOwnProperty (cardFields st) ?new"
  proof -
    from h have ne: "?new \<noteq> ?old" and nonempty: "?new \<noteq> []"
      and unused: "\<not> hasOwnProperty (cardFields st) ?new" by simp_all
    note fields = renamed_fields [OF row ne nonempty unused, of env]
    have fresh: "\<not> hasOwnProperty ?rest ?new"
      using unused by (simp add: omitProperty_has)
    have keys: "set (objectKeys (setProperty ?rest ?new (getProperty (cardFields st) ?old)))
        = insert ?new (set (objectKeys ?rest))"
      by (rule setProperty_fresh_keys [OF fresh])
    have "\<not> hasOwnProperty ?rest ?old" by (simp add: omitProperty_has)
    with ne keys have gone:
      "\<not> hasOwnProperty (setProperty ?rest ?new (getProperty (cardFields st) ?old)) ?old"
      by (simp add: hasOwnProperty_def)
    from keys have there:
      "hasOwnProperty (setProperty ?rest ?new (getProperty (cardFields st) ?old)) ?new"
      by (simp add: hasOwnProperty_def)
    show ?thesis
      using gone there
      by (simp add: fields setProperty_fresh_get [OF fresh] setProperty_fresh_omit [OF fresh])
  qed
  show "let oldName = ?old; newName = ?new; result = ?result;
          newFields = cardFields (snd (stateOf result))
      in (newName = oldName \<longrightarrow> result = Returned (nodeValue, st))
       \<and> (newName \<noteq> oldName \<and> (newName = [] \<or> hasOwnProperty (cardFields st) newName) \<longrightarrow>
            result = Returned (oldName, st))
       \<and> (newName \<noteq> oldName \<and> newName \<noteq> [] \<and> \<not> hasOwnProperty (cardFields st) newName \<longrightarrow>
            getProperty newFields newName = getProperty (cardFields st) oldName
          \<and> hasOwnProperty newFields newName
          \<and> \<not> hasOwnProperty newFields oldName
          \<and> omitProperty newFields newName = omitProperty (cardFields st) oldName
          \<and> profileFields (snd (stateOf result)) = newFields)"
    unfolding Let_def using same revert rename by blast
qed

lemma exampleEditor_fields:
  "cardFields (exampleEditor exampleFields) = exampleFields"
  "map entryFieldName (fieldEntries (exampleEditor exampleFields)) = [''Front'', ''Reading'', ''Back'']"
  "length (fieldEntries (exampleEditor exampleFields)) = 3"
  by (simp_all add: exampleEditor_def setupFields_def objectEntries_def exampleFields_def
      exampleField_def createFieldEntry_def)

lemma exampleEditor_first_row:
  "entryFieldName (fieldEntries (exampleEditor exampleFields) ! 0) = ''Front''"
  by (simp add: exampleEditor_def setupFields_def objectEntries_def exampleFields_def
      exampleField_def createFieldEntry_def)

lemma exampleFields_eval:
  "objectKeys exampleFields = [''Front'', ''Reading'', ''Back'']"
  "getProperty exampleFields ''Front'' = exampleField ''{expression}''"
  "omitProperty exampleFields ''Front''
     = [(''Reading'', exampleField ''{reading}''), (''Back'', exampleField ''{glossary}'')]"
  "allDefined exampleFields"
  "hasOwnProperty exampleFields k \<longleftrightarrow> k = ''Front'' \<or> k = ''Reading'' \<or> k = ''Back''"
  by (auto simp: exampleFields_def objectKeys_def getProperty_def omitProperty_def
      allDefined_def exampleField_def hasOwnProperty_def)

theorem onFieldNameBlur_renames_witness:
  "onFieldNameBlur exampleCollaborators 0 ''Front '' (exampleEditor exampleFields)
     = Returned (''Front '', exampleEditor exampleFields)
   \<and> onFieldNameBlur exampleCollaborators 0 '' Back'' (exampleEditor exampleFields)
     = Returned (''Front'', exampleEditor exampleFields)
   \<and> onFieldNameBlur exampleCollaborators 0 ''  '' (exampleEditor exampleFields)
     = Returned (''Front'', exampleEditor exampleFields)
   \<and> getProperty (cardFields (snd (stateOf
        (onFieldNameBlur exampleCollaborators 0 '' Word '' (exampleEditor exampleFields))))) ''Word''
     = exampleField ''{expression}''
   \<and> omitProperty (cardFields (snd (stateOf
        (onFieldNameBlur exampleCollaborators 0 '' Word '' (exampleEditor exampleFields))))) ''Word''
     = [(''Reading'', exampleField ''{reading}''), (''Back'', exampleField ''{glossary}'')]"
  using onFieldNameBlur_renames [of 0 "exampleEditor exampleFields" "''Front ''" exampleCollaborators]
    onFieldNameBlur_renames [of 0 "exampleEditor exampleFields" "'' Back''" exampleCollaborators]
    onFieldNameBlur_renames [of 0 "exampleEditor exampleFields" "''  ''" exampleCollaborators]
    onFieldNameBlur_renames [of 0 "exampleEditor exampleFields" "'' Word ''" exampleCollaborators]
  by (simp add: exampleEditor_fields exampleEditor_first_row exampleFields_eval Let_def trim_def
      isWhiteSpace_def)


subsection \<open>Where a renamed field is shown\<close>

lemma allDefined_getProperty:
  "allDefined obj \<Longrightarrow> hasOwnProperty obj k \<Longrightarrow> getProperty obj k \<noteq> None"
proof -
  assume defined: "allDefined obj" and "hasOwnProperty obj k"
  then have "map_of obj k \<noteq> None"
    by (simp add: hasOwnProperty_def objectKeys_def map_of_eq_None_iff)
  then obtain v where "map_of obj k = Some v" by blast
  moreover from this have "(k, v) \<in> set obj" by (rule map_of_SomeD)
  with defined have "v \<noteq> None" by (auto simp: allDefined_def list_all_iff)
  ultimately show ?thesis by (simp add: getProperty_def)
qed

lemma allDefined_omitProperty:
  "allDefined obj \<Longrightarrow> allDefined (omitProperty obj k)"
  by (simp add: allDefined_def omitProperty_def list_all_iff)

lemma arrayIndex_eval:
  "arrayIndex ''1'' = Some 1"
  "arrayIndex ''Reading'' = None"
  "arrayIndex ''Back'' = None"
  "arrayIndex ''Word'' = None"
proof -
  show "arrayIndex ''1'' = Some 1"
    by (simp add: arrayIndex_def parseDecimal_def digitValue_def decimal.simps digitChar_def)
  show "arrayIndex ''Reading'' = None"
    by (rule arrayIndex_not_digit [of "CHR ''R''"]) simp_all
  show "arrayIndex ''Back'' = None"
    by (rule arrayIndex_not_digit [of "CHR ''B''"]) simp_all
  show "arrayIndex ''Word'' = None"
    by (rule arrayIndex_not_digit [of "CHR ''W''"]) simp_all
qed

text \<open>
  Claim C10, as stated, fails: renaming the first field \<^verbatim>\<open>Front\<close> of the example editor to
  \<^verbatim>\<open>1\<close> succeeds, and the renamed field is then the first of the map and of the rows shown,
  not the last: an array-index key precedes every other key of an object.
\<close>

theorem renamed_field_position_counterexample:
  "objectKeys (cardFields (snd (stateOf
      (onFieldNameBlur exampleCollaborators 0 ''1'' (exampleEditor exampleFields)))))
     = [''1'', ''Reading'', ''Back'']
   \<and> map entryFieldName (fieldEntries (snd (stateOf
      (onFieldNameBlur exampleCollaborators 0 ''1'' (exampleEditor exampleFields)))))
     = [''1'', ''Reading'', ''Back'']
   \<and> last (objectKeys (cardFields (snd (stateOf
      (onFieldNameBlur exampleCollaborators 0 ''1'' (exampleEditor exampleFields)))))) \<noteq> ''1''"
proof -
  have blur: "onFieldNameBlur exampleCollaborators 0 ''1'' (exampleEditor exampleFields) =
      withNodeValue ''1'' (setupFields exampleCollaborators
        ((exampleEditor exampleFields)
           \<lparr>profileFields := [(''1'', exampleField ''{expression}''),
               (''Reading'', exampleField ''{reading}''), (''Back'', exampleField ''{glossary}'')],
            cardFields := [(''1'', exampleField ''{expression}''),
               (''Reading'', exampleField ''{reading}''), (''Back'', exampleField ''{glossary}'')]\<rparr>))"
    by (simp add: onFieldNameBlur_def Let_def exampleEditor_fields exampleEditor_first_row
        exampleFields_eval trim_def isWhiteSpace_def setProperty_def arrayIndex_eval)
      (simp add: hasOwnProperty_def objectKeys_def)
  show ?thesis
    by (simp add: blur withNodeValue_state setupFields_frame objectKeys_def)
      (simp add: setupFields_def objectEntries_def exampleField_def createFieldEntry_def)
qed

text \<open>
  Claim C10, amended. After a successful rename (trimmed new name non-empty, distinct from
  the old name and not a key of the map) to a name that is not an array index, the map is
  the old one without the old name, followed by the new name with the old field: the
  renamed field is the last of the map. When every field of the map is defined and the
  row's name is a key of the map, the rows are shown again in the order of the map, so the
  renamed field is the last row.
\<close>

theorem renamed_field_is_last:
  "index < length (fieldEntries st)
   \<and> trim nodeValue \<noteq> entryFieldName (fieldEntries st ! index)
   \<and> trim nodeValue \<noteq> []
   \<and> \<not> hasOwnProperty (cardFields st) (trim nodeValue)
   \<and> arrayIndex (trim nodeValue) = None \<longrightarrow>
     (let oldName = entryFieldName (fieldEntries st ! index);
          after = snd (stateOf (onFieldNameBlur env index nodeValue st))
      in cardFields after
           = omitProperty (cardFields st) oldName @ [(trim nodeValue, getProperty (cardFields st) oldName)]
       \<and> last (objectKeys (cardFields after)) = trim nodeValue
       \<and> (allDefined (cardFields st) \<and> hasOwnProperty (cardFields st) oldName \<longrightarrow>
            map entryFieldName (fieldEntries after) = objectKeys (cardFields after)
          \<and> entryFieldName (last (fieldEntries after)) = trim nodeValue))"
proof (intro impI)
  assume h: "index < length (fieldEntries st)
   \<and> trim nodeValue \<noteq> entryFieldName (fieldEntries st ! index)
   \<and> trim nodeValue \<noteq> []
   \<and> \<not> hasOwnProperty (cardFields st) (trim nodeValue)
   \<and> arrayIndex (trim nodeValue) = None"
  let ?old = "entryFieldName (fieldEntries st ! index)"
  let ?new = "trim nodeValue"
  let ?rest = "omitProperty (cardFields st) ?old"
  let ?newFields = "?rest @ [(?new, getProperty (cardFields st) ?old)]"
  let ?st1 = "st\<lparr>profileFields := ?newFields, cardFields := ?newFields\<rparr>"
  let ?after = "snd (stateOf (onFieldNameBlur env index nodeValue st))"
  from h have row: "index < length (fieldEntries st)" and ne: "?new \<noteq> ?old"
    and nonempty: "?new \<noteq> []" and unused: "\<not> hasOwnProperty (cardFields st) ?new"
    and plain: "arrayIndex ?new = None" by simp_all
  have fresh: "\<not> hasOwnProperty ?rest ?new"
    using unused by (simp add: omitProperty_has)
  have set: "setProperty ?rest ?new (getProperty (cardFields st) ?old) = ?newFields"
    by (rule setProperty_fresh_plain [OF fresh plain])
  have blur: "onFieldNameBlur env index nodeValue st = withNodeValue nodeValue (setupFields env ?st1)"
    by (simp add: onFieldNameBlur_unfold [OF row ne nonempty unused] set)
  have fields: "cardFields ?after = ?newFields"
    by (simp add: blur withNodeValue_state setupFields_frame)
  have lastKey: "last (objectKeys (cardFields ?after)) = ?new"
    by (simp add: fields objectKeys_def)
  have rows: "map entryFieldName (fieldEntries ?after) = objectKeys (cardFields ?after)
      \<and> entryFieldName (last (fieldEntries ?after)) = ?new"
    if d: "allDefined (cardFields st) \<and> hasOwnProperty (cardFields st) ?old"
  proof -
    from d have "getProperty (cardFields st) ?old \<noteq> None"
      by (simp add: allDefined_getProperty)
    moreover from d have "allDefined ?rest" by (simp add: allDefined_omitProperty)
    ultimately have "allDefined (cardFields ?st1)"
      by (simp add: allDefined_def)
    from setupFields_defined [OF this, of env]
    obtain entries where out: "setupFields env ?st1 = Returned (?st1\<lparr>fieldEntries := entries\<rparr>)"
      and names: "map entryFieldName entries = objectKeys (cardFields ?st1)"
      by blast
    from out have after: "fieldEntries ?after = entries"
      by (simp add: blur)
    from names have "entries \<noteq> []" by (auto simp: objectKeys_def)
    then have "entryFieldName (last entries) = last (map entryFieldName entries)"
      by (simp add: last_map)
    with names show ?thesis
      by (simp add: after fields objectKeys_def)
  qed
  show "let oldName = ?old; after = ?after
      in cardFields after
           = omitProperty (cardFields st) oldName @ [(trim nodeValue, getProperty (cardFields st) oldName)]
       \<and> last (objectKeys (cardFields after)) = trim nodeValue
       \<and> (allDefined (cardFields st) \<and> hasOwnProperty (cardFields st) oldName \<longrightarrow>
            map entryFieldName (fieldEntries after) = objectKeys (cardFields after)
          \<and> entryFieldName (last (fieldEntries after)) = trim nodeValue)"
    unfolding Let_def using fields lastKey rows by blast
qed

theorem renamed_field_is_last_witness:
  "objectKeys (cardFields (snd (stateOf
      (onFieldNameBlur exampleCollaborators 0 '' Word '' (exampleEditor exampleFields)))))
     = [''Reading'', ''Back'', ''Word'']
   \<and> map entryFieldName (fieldEntries (snd (stateOf
      (onFieldNameBlur exampleCollaborators 0 '' Word '' (exampleEditor exampleFields)))))
     = [''Reading'', ''Back'', ''Word'']
   \<and> entryFieldName (last (fieldEntries (snd (stateOf
      (onFieldNameBlur exampleCollaborators 0 '' Word '' (exampleEditor exampleFields)))))) = ''Word''"
  using renamed_field_is_last [of 0 "exampleEditor exampleFields" "'' Word ''" exampleCollaborators]
  by (simp add: exampleEditor_fields exampleEditor_first_row exampleFields_eval Let_def trim_def
      isWhiteSpace_def arrayIndex_eval)
    (simp add: objectKeys_def)

subsection \<open>Adding fields\<close>

lemma findFieldName_first:
  "name = candidateName counter \<Longrightarrow> (\<forall>m<counter. hasOwnProperty ankiFields (candidateName m))
     \<Longrightarrow> \<exists>n. findFieldName ankiFields name counter = candidateName n
            \<and> \<not> hasOwnProperty ankiFields (candidateName n)
            \<and> (\<forall>m<n. hasOwnProperty ankiFields (candidateName m))"
proof (induction ankiFields name counter rule: findFieldName.induct)
  case (1 ankiFields name counter)
  show ?case
  proof (cases "hasOwnProperty ankiFields name")
    case True
    have next_name: "''Field'' @ decimal (Suc counter) = candidateName (Suc counter)"
      by (simp add: candidateName_def)
    have "\<forall>m<Suc counter. hasOwnProperty ankiFields (candidateName m)"
      using True "1.prems" by (auto simp: less_Suc_eq)
    moreover have "findFieldName ankiFields name counter
        = findFieldName ankiFields (''Field'' @ decimal (Suc counter)) (Suc counter)"
      using True by (simp add: findFieldName.simps [of ankiFields name counter])
    ultimately show ?thesis
      using "1.IH" [OF True next_name] by simp
  next
    case False
    then have "findFieldName ankiFields name counter = name"
      by (simp add: findFieldName.simps [of ankiFields name counter])
    with False "1.prems" show ?thesis
      by (intro exI [of _ counter]) simp
  qed
qed

lemma findFieldName_Field:
  "\<exists>n. findFieldName ankiFields ''Field'' 0 = candidateName n
        \<and> \<not> hasOwnProperty ankiFields (candidateName n)
        \<and> (\<forall>m<n. hasOwnProperty ankiFields (candidateName m))"
  by (rule findFieldName_first) (simp_all add: candidateName_def)

lemma arrayIndex_candidateName:
  "arrayIndex (candidateName n) = None"
  using arrayIndex_Field [of "[]"] arrayIndex_Field [of "decimal n"]
  by (simp add: candidateName_def)

lemma onAddFieldClick_fields:
  "cardFields (stateOf (onAddFieldClick env st))
     = cardFields st @ [(findFieldName (cardFields st) ''Field'' 0,
                         Some \<lparr>fieldValue = [], overwriteMode = ''coalesce''\<rparr>)]"
  "profileFields (stateOf (onAddFieldClick env st)) = cardFields (stateOf (onAddFieldClick env st))"
proof -
  obtain n where name: "findFieldName (cardFields st) ''Field'' 0 = candidateName n"
    and fresh: "\<not> hasOwnProperty (cardFields st) (candidateName n)"
    using findFieldName_Field [of "cardFields st"] by blast
  have "setProperty (cardFields st) (candidateName n) v = cardFields st @ [(candidateName n, v)]" for v
    by (rule setProperty_fresh_plain [OF fresh arrayIndex_candidateName])
  then show "cardFields (stateOf (onAddFieldClick env st))
     = cardFields st @ [(findFieldName (cardFields st) ''Field'' 0,
                         Some \<lparr>fieldValue = [], overwriteMode = ''coalesce''\<rparr>)]"
    and "profileFields (stateOf (onAddFieldClick env st)) = cardFields (stateOf (onAddFieldClick env st))"
    by (simp_all add: onAddFieldClick_def Let_def setupFields_frame name)
qed

lemma onAddFieldClick_repeated:
  "length (cardFields (((\<lambda>s. stateOf (onAddFieldClick env s)) ^^ k) st)) = length (cardFields st) + k"
  "distinct (objectKeys (cardFields st))
     \<Longrightarrow> distinct (objectKeys (cardFields (((\<lambda>s. stateOf (onAddFieldClick env s)) ^^ k) st)))"
proof -
  show "length (cardFields (((\<lambda>s. stateOf (onAddFieldClick env s)) ^^ k) st)) = length (cardFields st) + k"
    by (induction k) (simp_all add: onAddFieldClick_fields)
  show "distinct (objectKeys (cardFields (((\<lambda>s. stateOf (onAddFieldClick env s)) ^^ k) st)))"
    if "distinct (objectKeys (cardFields st))"
  proof (induction k)
    case 0
    from that show ?case by simp
  next
    case (Suc k)
    let ?s = "((\<lambda>s. stateOf (onAddFieldClick env s)) ^^ k) st"
    obtain n where name: "findFieldName (cardFields ?s) ''Field'' 0 = candidateName n"
      and fresh: "\<not> hasOwnProperty (cardFields ?s) (candidateName n)"
      using findFieldName_Field [of "cardFields ?s"] by blast
    with Suc show ?case
      by (simp add: onAddFieldClick_fields objectKeys_def hasOwnProperty_def)
  qed
qed

text \<open>
  Claim C6. \<open>onAddFieldClick\<close> chooses the first of the names \<^verbatim>\<open>Field\<close>, \<^verbatim>\<open>Field1\<close>,
  \<^verbatim>\<open>Field2\<close>, ... that is not a key of the field map (the search always ends), and puts a
  field with the empty value and the overwrite policy \<^verbatim>\<open>coalesce\<close> under that name behind
  the existing fields, which it leaves as they are; the map stored in the profile is the new
  map. The name is not a key of the map before, so however often a field is added, every
  call adds one key and the keys stay pairwise distinct.
\<close>

theorem onAddFieldClick_adds_unused_name:
  "(let name = findFieldName (cardFields st) ''Field'' 0;
        newField = Some \<lparr>fieldValue = [], overwriteMode = ''coalesce''\<rparr>;
        newFields = cardFields (stateOf (onAddFieldClick env st))
    in \<not> hasOwnProperty (cardFields st) name
     \<and> (\<exists>n. name = candidateName n \<and> (\<forall>m<n. hasOwnProperty (cardFields st) (candidateName m)))
     \<and> newFields = cardFields st @ [(name, newField)]
     \<and> getProperty newFields name = newField
     \<and> hasOwnProperty newFields name
     \<and> profileFields (stateOf (onAddFieldClick env st)) = newFields)
   \<and> length (cardFields (((\<lambda>s. stateOf (onAddFieldClick env s)) ^^ k) st)) = length (cardFields st) + k
   \<and> (distinct (objectKeys (cardFields st)) \<longrightarrow>
        distinct (objectKeys (cardFields (((\<lambda>s. stateOf (onAddFieldClick env s)) ^^ k) st))))"
proof -
  obtain n where name: "findFieldName (cardFields st) ''Field'' 0 = candidateName n"
    and fresh: "\<not> hasOwnProperty (cardFields st) (candidateName n)"
    and first: "\<forall>m<n. hasOwnProperty (cardFields st) (candidateName m)"
    using findFieldName_Field [of "cardFields st"] by blast
  have get: "getProperty (cardFields st @ [(candidateName n, v)]) (candidateName n) = v" for v
    using setProperty_fresh_get [OF fresh, of v]
      setProperty_fresh_plain [OF fresh arrayIndex_candidateName, of v]
    by simp
  have has: "hasOwnProperty (cardFields st @ [(candidateName n, v)]) (candidateName n)" for v
    by (simp add: hasOwnProperty_def objectKeys_def)
  show ?thesis
    using fresh first
    by (auto simp: Let_def onAddFieldClick_fields name get has onAddFieldClick_repeated)
qed

theorem onAddFieldClick_adds_unused_name_witness:
  "findFieldName [(''Field'', exampleField ''{expression}''), (''Field1'', exampleField ''{reading}'')]
      ''Field'' 0 = ''Field2''
   \<and> cardFields (stateOf (onAddFieldClick exampleCollaborators
        (exampleEditor [(''Field'', exampleField ''{expression}''), (''Field1'', exampleField ''{reading}'')])))
     = [(''Field'', exampleField ''{expression}''), (''Field1'', exampleField ''{reading}''),
        (''Field2'', Some \<lparr>fieldValue = [], overwriteMode = ''coalesce''\<rparr>)]
   \<and> length (cardFields (((\<lambda>s. stateOf (onAddFieldClick exampleCollaborators s)) ^^ 3)
        (exampleEditor exampleFields))) = 6
   \<and> distinct (objectKeys (cardFields (((\<lambda>s. stateOf (onAddFieldClick exampleCollaborators s)) ^^ 3)
        (exampleEditor exampleFields))))"
proof -
  have name: "findFieldName [(''Field'', exampleField ''{expression}''), (''Field1'', exampleField ''{reading}'')]
      ''Field'' 0 = ''Field2''"
    by (simp add: findFieldName.simps hasOwnProperty_def objectKeys_def decimal.simps digitChar_def)
  have editor: "cardFields (exampleEditor ankiFields) = ankiFields" for ankiFields
    by (simp add: exampleEditor_def setupFields_frame)
  show ?thesis
    using onAddFieldClick_adds_unused_name [of "exampleEditor [(''Field'', exampleField ''{expression}''),
        (''Field1'', exampleField ''{reading}'')]" exampleCollaborators 0]
      onAddFieldClick_adds_unused_name [of "exampleEditor exampleFields" exampleCollaborators 3]
    by (simp add: Let_def editor name exampleFields_eval)
      (simp add: exampleFields_def)
qed

subsection \<open>Validation of a row\<close>

text \<open>
  Claim C8. \<open>validateField\<close> changes nothing but the flag \<^verbatim>\<open>dataset.invalid\<close> of the row's
  input, and it raises nothing (it is a total function that returns the input). The flag is
  \<^verbatim>\<open>true\<close> exactly when the permission flag of the row is \<^verbatim>\<open>false\<close> or the row is the
  first one and its value contains no field marker, and \<^verbatim>\<open>false\<close> otherwise. The flag that
  \<open>validateFieldPermissions\<close> leaves is \<^verbatim>\<open>true\<close> exactly when the value requires permissions
  that were not granted, or the row is the first one and its value contains no marker.
\<close>

theorem validateField_marks_invalid:
  "validateField containsAnyFieldMarker node index
     = node\<lparr>dataInvalid := Some (boolString
         (dataHasPermissions node = Some ''false''
            \<or> index = 0 \<and> \<not> containsAnyFieldMarker (inputValue node)))\<rparr>
   \<and> (dataInvalid (validateField containsAnyFieldMarker node index) = Some ''true'' \<longleftrightarrow>
        dataHasPermissions node = Some ''false''
          \<or> index = 0 \<and> \<not> containsAnyFieldMarker (inputValue node))
   \<and> (dataInvalid (validateField containsAnyFieldMarker node index) = Some ''false'' \<longleftrightarrow>
        \<not> (dataHasPermissions node = Some ''false''
          \<or> index = 0 \<and> \<not> containsAnyFieldMarker (inputValue node)))
   \<and> (dataInvalid (validateFieldPermissions containsAnyFieldMarker requiredPermissions answer node index)
          = Some ''true'' \<longleftrightarrow>
        requiredPermissions (inputValue node) \<noteq> [] \<and> \<not> answer
          \<or> index = 0 \<and> \<not> containsAnyFieldMarker (inputValue node))"
  by (auto simp: validateField_def validateFieldPermissions_def Let_def boolString_def)

theorem validateField_marks_invalid_witness:
  "dataInvalid (validateField (\<lambda>s. CHR ''{'' \<in> set s)
      \<lparr>inputValue = ''no marker'', dataHasPermissions = None, dataRequiredPermission = None,
       dataInvalid = None\<rparr> 0) = Some ''true''
   \<and> dataInvalid (validateField (\<lambda>s. CHR ''{'' \<in> set s)
      \<lparr>inputValue = ''no marker'', dataHasPermissions = None, dataRequiredPermission = None,
       dataInvalid = None\<rparr> 1) = Some ''false''
   \<and> dataInvalid (validateField (\<lambda>s. CHR ''{'' \<in> set s)
      \<lparr>inputValue = ''{clipboard-text}'', dataHasPermissions = Some ''false'',
       dataRequiredPermission = Some ''clipboardRead'', dataInvalid = None\<rparr> 1) = Some ''true''
   \<and> dataInvalid (validateField (\<lambda>s. CHR ''{'' \<in> set s)
      \<lparr>inputValue = ''{expression}'', dataHasPermissions = None, dataRequiredPermission = None,
       dataInvalid = None\<rparr> 0) = Some ''false''"
  using validateField_marks_invalid [of "\<lambda>s. CHR ''{'' \<in> set s"
      "\<lparr>inputValue = ''no marker'', dataHasPermissions = None, dataRequiredPermission = None,
        dataInvalid = None\<rparr>" 0]
    validateField_marks_invalid [of "\<lambda>s. CHR ''{'' \<in> set s"
      "\<lparr>inputValue = ''no marker'', dataHasPermissions = None, dataRequiredPermission = None,
        dataInvalid = None\<rparr>" 1]
    validateField_marks_invalid [of "\<lambda>s. CHR ''{'' \<in> set s"
      "\<lparr>inputValue = ''{clipboard-text}'', dataHasPermissions = Some ''false'',
        dataRequiredPermission = Some ''clipboardRead'', dataInvalid = None\<rparr>" 1]
    validateField_marks_invalid [of "\<lambda>s. CHR ''{'' \<in> set s"
      "\<lparr>inputValue = ''{expression}'', dataHasPermissions = None, dataRequiredPermission = None,
        dataInvalid = None\<rparr>" 0]
  by (simp add: boolString_def)

subsection \<open>The default marker\<close>

lemma matchAtoms_skip_run:
  "matchAtoms atoms s \<Longrightarrow> matchAtoms (SeparatorRun # atoms) s"
  by (cases s) simp_all

lemma matchAtoms_run:
  "list_all isSeparator run \<Longrightarrow> matchAtoms atoms s \<Longrightarrow> matchAtoms (SeparatorRun # atoms) (run @ s)"
  by (induction run) (simp_all add: matchAtoms_skip_run)

lemma looseMatch_matchAtoms:
  "looseMatch name s \<Longrightarrow> matchAtoms (replaceHyphens name) s"
  by (induction rule: looseMatch.induct) (simp_all add: replaceHyphens_def matchAtoms_run)

inductive_cases looseMatch_hyphenE: "looseMatch (CHR ''-'' # name) s"

lemma looseMatch_longer_run:
  assumes "isSeparator d" and "looseMatch (CHR ''-'' # name) s"
  shows "looseMatch (CHR ''-'' # name) (d # s)"
proof -
  from assms(2) obtain run rest where s: "s = run @ rest"
    and run: "list_all isSeparator run" and rest: "looseMatch name rest"
    by (auto elim: looseMatch_hyphenE)
  from assms(1) run rest have "looseMatch (CHR ''-'' # name) ((d # run) @ rest)"
    by (intro looseMatch.hyphen) simp_all
  with s show ?thesis by simp
qed

lemma matchAtoms_looseMatch:
  "matchAtoms (replaceHyphens name) s \<Longrightarrow> looseMatch name s"
proof (induction name arbitrary: s)
  case Nil
  then show ?case by (simp add: replaceHyphens_def looseMatch.empty)
next
  case (Cons c name)
  show ?case
  proof (cases "c = CHR ''-''")
    case False
    with Cons.prems obtain d rest where "s = d # rest" "canonicalize c = canonicalize d"
      "matchAtoms (replaceHyphens name) rest"
      by (cases s) (auto simp: replaceHyphens_def)
    with False Cons.IH show ?thesis by (auto intro: looseMatch.letter)
  next
    case True
    note name = Cons.IH
    have "matchAtoms (SeparatorRun # replaceHyphens name) t \<Longrightarrow> looseMatch (CHR ''-'' # name) t" for t
    proof (induction t)
      case Nil
      then have "looseMatch name []" using name by simp
      then have "looseMatch (CHR ''-'' # name) ([] @ [])"
        by (intro looseMatch.hyphen) simp_all
      then show ?case by simp
    next
      case (Cons d t)
      from Cons.prems consider "isSeparator d" "matchAtoms (SeparatorRun # replaceHyphens name) t"
        | "matchAtoms (replaceHyphens name) (d # t)"
        by auto
      then show ?case
      proof cases
        case 1
        with Cons.IH show ?thesis by (simp add: looseMatch_longer_run)
      next
        case 2
        then have "looseMatch name (d # t)" by (rule name)
        then have "looseMatch (CHR ''-'' # name) ([] @ d # t)"
          by (intro looseMatch.hyphen) simp_all
        then show ?thesis by simp
      qed
    qed
    with True Cons.prems show ?thesis by (simp add: replaceHyphens_def)
  qed
qed

lemma matchAtoms_iff_looseMatch:
  "matchAtoms (replaceHyphens name) s \<longleftrightarrow> looseMatch name s"
  using matchAtoms_looseMatch looseMatch_matchAtoms by blast

lemma patternTest_iff_markerAnswers:
  "patternTest (marker # (case markerAliases marker of None \<Rightarrow> [] | Some aliases \<Rightarrow> aliases)) fieldName
     \<longleftrightarrow> markerAnswers fieldName marker"
  by (simp add: patternTest_def markerAnswers_def list_ex_iff matchAtoms_iff_looseMatch)

lemma findDefaultMarker_first_answer:
  "findDefaultMarker markers fieldName =
     (case find (markerAnswers fieldName) markers of
        None \<Rightarrow> []
      | Some marker \<Rightarrow> ''{'' @ marker @ ''}'')"
  by (induction markers) (simp_all add: Let_def patternTest_iff_markerAnswers)


lemma markerAliases_entry:
  "markerAliases marker = Some aliases \<Longrightarrow> (marker, aliases) \<in> set markerAliasEntries"
  using map_of_SomeD [of "rev markerAliasEntries" marker aliases] by (simp add: markerAliases_def)

lemma markerAliases_reading:
  "markerAliases ''reading'' = Some [''expression-reading'', ''term-reading'', ''word-reading'']"
  by (simp add: markerAliases_def markerAliasEntries_def)

lemma alias_of_Term_Reading:
  assumes "markerAliases marker = Some aliases" and "patternTest aliases ''Term-Reading''"
  shows "marker = ''reading''"
proof -
  have "list_all (\<lambda>(m, as). patternTest as ''Term-Reading'' \<longrightarrow> m = ''reading'') markerAliasEntries"
    by (simp add: markerAliasEntries_def patternTest_def replaceHyphens_def canonicalize_def
        isSeparator_def)
  with markerAliases_entry [OF assms(1)] assms(2) show ?thesis
    by (auto simp: list_all_iff)
qed

lemma alias_of_unknown_field:
  assumes "markerAliases marker = Some aliases"
  shows "\<not> patternTest aliases ''unknown-field''"
proof -
  have "list_all (\<lambda>(m, as). \<not> patternTest as ''unknown-field'') markerAliasEntries"
    by (simp add: markerAliasEntries_def patternTest_def replaceHyphens_def canonicalize_def
        isSeparator_def)
  with markerAliases_entry [OF assms] show ?thesis
    by (auto simp: list_all_iff)
qed

lemma patternTest_Cons:
  "patternTest (name # names) fieldName
     \<longleftrightarrow> looseMatch name fieldName \<or> patternTest names fieldName"
  by (simp add: patternTest_def matchAtoms_iff_looseMatch)

lemma findDefaultMarker_Term_Reading:
  assumes "''reading'' \<in> set markers" and "\<forall>m\<in>set markers. \<not> looseMatch m ''Term-Reading''"
  shows "findDefaultMarker markers ''Term-Reading'' = ''{reading}''"
  using assms
proof (induction markers)
  case Nil
  then show ?case by simp
next
  case (Cons marker markers)
  show ?case
  proof (cases "marker = ''reading''")
    case True
    have "patternTest [''expression-reading'', ''term-reading'', ''word-reading''] ''Term-Reading''"
      by (simp add: patternTest_def replaceHyphens_def canonicalize_def isSeparator_def)
    with True show ?thesis
      by (simp add: Let_def markerAliases_reading patternTest_Cons)
  next
    case False
    have "\<not> patternTest (case markerAliases marker of None \<Rightarrow> [] | Some aliases \<Rightarrow> aliases) ''Term-Reading''"
      using False alias_of_Term_Reading [of marker]
      by (cases "markerAliases marker") (auto simp: patternTest_def)
    with False Cons show ?thesis
      by (simp add: Let_def patternTest_Cons)
  qed
qed

lemma findDefaultMarker_unknown_field:
  assumes "\<forall>m\<in>set markers. \<not> looseMatch m ''unknown-field''"
  shows "findDefaultMarker markers ''unknown-field'' = []"
  using assms
proof (induction markers)
  case Nil
  then show ?case by simp
next
  case (Cons marker markers)
  have "\<not> patternTest (case markerAliases marker of None \<Rightarrow> [] | Some aliases \<Rightarrow> aliases) ''unknown-field''"
    using alias_of_unknown_field [of marker]
    by (cases "markerAliases marker") (auto simp: patternTest_def)
  with Cons show ?case
    by (simp add: Let_def patternTest_Cons)
qed

text \<open>
  Claim C7. For a row other than the first, and a field name that the old fields (if any
  are given) do not have, \<open>getDefaultFieldValue\<close> answers with the first marker of the table
  \<^verbatim>\<open>getStandardFieldMarkers\<close> whose name or one of whose aliases matches the field name
  loosely (without regard to case, each hyphen standing for any run of hyphens, underscores
  and spaces), in braces, and with the empty string when no marker does. For every table
  that has the marker \<^verbatim>\<open>reading\<close> and no marker that is itself named like the field,
  \<^verbatim>\<open>Term-Reading\<close> resolves to \<^verbatim>\<open>{reading}\<close>; for every table without a marker named like
  the field, \<^verbatim>\<open>unknown-field\<close> resolves to the empty string.
\<close>

theorem getDefaultFieldValue_first_matching_marker:
  "(index \<noteq> 0 \<and> \<not> (case oldFields of None \<Rightarrow> False | Some old \<Rightarrow> hasOwnProperty old fieldName) \<longrightarrow>
      getDefaultFieldValue getStandardFieldMarkers fieldName index dictionaryEntryType oldFields
        = Inr (case find (markerAnswers fieldName) (getStandardFieldMarkers dictionaryEntryType) of
                 None \<Rightarrow> []
               | Some marker \<Rightarrow> ''{'' @ marker @ ''}''))
   \<and> (index \<noteq> 0 \<and> ''reading'' \<in> set (getStandardFieldMarkers dictionaryEntryType)
        \<and> (\<forall>m\<in>set (getStandardFieldMarkers dictionaryEntryType). \<not> looseMatch m ''Term-Reading'') \<longrightarrow>
      getDefaultFieldValue getStandardFieldMarkers ''Term-Reading'' index dictionaryEntryType None
        = Inr ''{reading}'')
   \<and> (index \<noteq> 0
        \<and> (\<forall>m\<in>set (getStandardFieldMarkers dictionaryEntryType). \<not> looseMatch m ''unknown-field'') \<longrightarrow>
      getDefaultFieldValue getStandardFieldMarkers ''unknown-field'' index dictionaryEntryType None
        = Inr [])"
proof (intro conjI impI)
  assume "index \<noteq> 0 \<and> \<not> (case oldFields of None \<Rightarrow> False | Some old \<Rightarrow> hasOwnProperty old fieldName)"
  then show "getDefaultFieldValue getStandardFieldMarkers fieldName index dictionaryEntryType oldFields
        = Inr (case find (markerAnswers fieldName) (getStandardFieldMarkers dictionaryEntryType) of
                 None \<Rightarrow> []
               | Some marker \<Rightarrow> ''{'' @ marker @ ''}'')"
    by (cases oldFields)
      (simp_all add: getDefaultFieldValue_def Let_def findDefaultMarker_first_answer)
next
  assume "index \<noteq> 0 \<and> ''reading'' \<in> set (getStandardFieldMarkers dictionaryEntryType)
        \<and> (\<forall>m\<in>set (getStandardFieldMarkers dictionaryEntryType). \<not> looseMatch m ''Term-Reading'')"
  then show "getDefaultFieldValue getStandardFieldMarkers ''Term-Reading'' index dictionaryEntryType None
        = Inr ''{reading}''"
    by (simp add: getDefaultFieldValue_def findDefaultMarker_Term_Reading)
next
  assume "index \<noteq> 0
        \<and> (\<forall>m\<in>set (getStandardFieldMarkers dictionaryEntryType). \<not> looseMatch m ''unknown-field'')"
  then show "getDefaultFieldValue getStandardFieldMarkers ''unknown-field'' index dictionaryEntryType None
        = Inr []"
    by (simp add: getDefaultFieldValue_def findDefaultMarker_unknown_field)
qed

theorem getDefaultFieldValue_first_matching_marker_witness:
  "getDefaultFieldValue exampleMarkers ''Term-Reading'' 1 TermEntry None = Inr ''{reading}''
   \<and> getDefaultFieldValue exampleMarkers ''unknown-field'' 1 TermEntry None = Inr []
   \<and> getDefaultFieldValue exampleMarkers ''WORD_audio'' 2 TermEntry None = Inr ''{audio}''"
proof -
  have plain: "\<forall>m\<in>set (exampleMarkers TermEntry). \<not> looseMatch m ''Term-Reading''"
    "\<forall>m\<in>set (exampleMarkers TermEntry). \<not> looseMatch m ''unknown-field''"
    by (simp_all add: exampleMarkers_def matchAtoms_iff_looseMatch [symmetric] replaceHyphens_def
        canonicalize_def isSeparator_def)
  have audio: "getDefaultFieldValue exampleMarkers ''WORD_audio'' 2 TermEntry None = Inr ''{audio}''"
    by (simp add: getDefaultFieldValue_def exampleMarkers_def Let_def markerAliases_def
        markerAliasEntries_def patternTest_def replaceHyphens_def canonicalize_def isSeparator_def)
  show ?thesis
    using getDefaultFieldValue_first_matching_marker
        [where index = 1 and getStandardFieldMarkers = exampleMarkers
           and dictionaryEntryType = TermEntry and oldFields = None and fieldName = "''Front''"]
      plain audio
    by (simp add: exampleMarkers_def)
qed

end
